theory Spec2Isabelle
  imports Complex_Main "HOL-Library.Sublist"
begin

section \<open>The judging-system schema: column types\<close>

text \<open>
  The migration \<^verbatim>\<open>001_judging_system_schema.sql\<close> declares nine tables. Every column
  that is not declared \<^verbatim>\<open>NOT NULL\<close> (and is not a primary key) admits SQL NULL, so a
  column of type \<open>t\<close> is an \<open>t option\<close> here, with \<open>None\<close> for NULL. A \<^verbatim>\<open>uuid\<close> is an
  opaque identifier, a \<^verbatim>\<open>timestamptz\<close> a point on a discrete clock.
\<close>

type_synonym uuid = nat
type_synonym timestamptz = nat
type_synonym jsonb = string

text \<open>
  PostgreSQL's \<^verbatim>\<open>numeric\<close> holds the exact decimals together with the three special
  values \<^verbatim>\<open>-Infinity\<close>, \<^verbatim>\<open>Infinity\<close> and \<^verbatim>\<open>NaN\<close>. Its comparison is total: \<^verbatim>\<open>NaN\<close> equals
  itself and is greater than every other value.
\<close>

datatype numeric = NegInfinity | Finite rat | PosInfinity | NaN

fun numeric_le :: "numeric \<Rightarrow> numeric \<Rightarrow> bool" where
  "numeric_le NegInfinity _ = True"
| "numeric_le (Finite a) NegInfinity = False"
| "numeric_le (Finite a) (Finite b) = (a \<le> b)"
| "numeric_le (Finite a) _ = True"
| "numeric_le PosInfinity NegInfinity = False"
| "numeric_le PosInfinity (Finite b) = False"
| "numeric_le PosInfinity _ = True"
| "numeric_le NaN NaN = True"
| "numeric_le NaN _ = False"

text \<open>SQL's three-valued logic: \<open>None\<close> is UNKNOWN.\<close>

type_synonym sql_bool = "bool option"

fun sql_and :: "sql_bool \<Rightarrow> sql_bool \<Rightarrow> sql_bool" where
  "sql_and (Some False) _ = Some False"
| "sql_and _ (Some False) = Some False"
| "sql_and (Some True) (Some True) = Some True"
| "sql_and _ _ = None"

fun sql_eq :: "'a option \<Rightarrow> 'a option \<Rightarrow> sql_bool" where
  "sql_eq (Some a) (Some b) = Some (a = b)"
| "sql_eq _ _ = None"

fun sql_ge :: "numeric option \<Rightarrow> numeric option \<Rightarrow> sql_bool" where
  "sql_ge (Some a) (Some b) = Some (numeric_le b a)"
| "sql_ge _ _ = None"

fun sql_le :: "numeric option \<Rightarrow> numeric option \<Rightarrow> sql_bool" where
  "sql_le (Some a) (Some b) = Some (numeric_le a b)"
| "sql_le _ _ = None"

text \<open>A \<^verbatim>\<open>WHERE\<close> clause, a join condition and a policy keep a row only when the
  condition is TRUE; a \<^verbatim>\<open>CHECK\<close> constraint rejects a row only when it is FALSE.\<close>

definition is_true :: "sql_bool \<Rightarrow> bool" where
  "is_true b = (b = Some True)"

definition check_passes :: "sql_bool \<Rightarrow> bool" where
  "check_passes b = (b \<noteq> Some False)"

section \<open>The tables\<close>

record event_row =
  ev_id :: uuid
  ev_name :: "string option"
  ev_description :: "string option"
  ev_status :: "string option"
  ev_start_date :: "timestamptz option"
  ev_end_date :: "timestamptz option"
  ev_created_by :: "uuid option"
  ev_created_at :: "timestamptz option"
  ev_updated_at :: "timestamptz option"

record category_row =
  cat_id :: uuid
  cat_event_id :: "uuid option"
  cat_name :: "string option"
  cat_description :: "string option"
  cat_weight :: "numeric option"
  cat_criteria :: "jsonb option"
  cat_created_at :: "timestamptz option"

record team_row =
  team_id :: uuid
  team_event_id :: "uuid option"
  team_name :: "string option"
  team_category_id :: "uuid option"
  team_description :: "string option"
  team_members :: "jsonb option"
  team_created_at :: "timestamptz option"

record judge_row =
  judge_id :: uuid
  judge_event_id :: "uuid option"
  judge_name :: "string option"
  judge_email :: "string option"
  judge_access_token :: "string option"
  judge_invitation_sent :: "bool option"
  judge_invitation_sent_at :: "timestamptz option"
  judge_created_at :: "timestamptz option"

record judge_assignment_row =
  ja_id :: uuid
  ja_judge_id :: "uuid option"
  ja_category_id :: "uuid option"
  ja_team_id :: "uuid option"
  ja_round_number :: "int option"
  ja_created_at :: "timestamptz option"

record scoring_round_row =
  sr_id :: uuid
  sr_event_id :: "uuid option"
  sr_round_number :: "int option"
  sr_name :: "string option"
  sr_status :: "string option"
  sr_started_at :: "timestamptz option"
  sr_completed_at :: "timestamptz option"
  sr_created_at :: "timestamptz option"

record score_row =
  sc_id :: uuid
  sc_judge_id :: "uuid option"
  sc_team_id :: "uuid option"
  sc_category_id :: "uuid option"
  sc_round_id :: "uuid option"
  sc_criterion_name :: "string option"
  sc_score :: "numeric option"
  sc_comments :: "string option"
  sc_submitted_at :: "timestamptz option"

record normalized_score_row =
  ns_id :: uuid
  ns_judge_id :: "uuid option"
  ns_team_id :: "uuid option"
  ns_round_id :: "uuid option"
  ns_raw_score :: "numeric option"
  ns_normalized_score :: "numeric option"
  ns_percentile :: "numeric option"
  ns_rank :: "int option"
  ns_selected_for_round2 :: "bool option"
  ns_created_at :: "timestamptz option"

record final_result_row =
  fr_id :: uuid
  fr_event_id :: "uuid option"
  fr_team_id :: "uuid option"
  fr_final_score :: "numeric option"
  fr_final_rank :: "int option"
  fr_correlation_coefficient :: "numeric option"
  fr_created_at :: "timestamptz option"

text \<open>
  The database state: the rows of each table, in insertion order. The table
  \<^verbatim>\<open>profiles\<close>, which \<^verbatim>\<open>events.created_by\<close> references, is created by another
  migration; only its primary keys matter here.
\<close>

record db =
  profiles :: "uuid list"
  events :: "event_row list"
  categories :: "category_row list"
  teams :: "team_row list"
  judges :: "judge_row list"
  judge_assignments :: "judge_assignment_row list"
  scoring_rounds :: "scoring_round_row list"
  scores :: "score_row list"
  normalized_scores :: "normalized_score_row list"
  final_results :: "final_result_row list"

definition empty_db :: db where
  "empty_db = \<lparr>profiles = [], events = [], categories = [], teams = [], judges = [],
     judge_assignments = [], scoring_rounds = [], scores = [], normalized_scores = [],
     final_results = []\<rparr>"

text \<open>A statement that violates a constraint is rejected as a whole; the error names
  the kind of constraint and the constraint (or column).\<close>

datatype db_error =
    Not_null_violation string
  | Check_violation string
  | Unique_violation string
  | Foreign_key_violation string

text \<open>A foreign-key column refers to one of a list of keys; NULL refers to nothing and
  always passes.\<close>

fun refers_to :: "uuid list \<Rightarrow> uuid option \<Rightarrow> bool" where
  "refers_to ks None = False"
| "refers_to ks (Some k) = (k \<in> set ks)"

fun fk_ok :: "uuid list \<Rightarrow> uuid option \<Rightarrow> bool" where
  "fk_ok ks None = True"
| "fk_ok ks (Some k) = (k \<in> set ks)"

section \<open>The scores table\<close>

text \<open>
  \<^verbatim>\<open>score numeric NOT NULL CHECK (score >= 0 AND score <= 10)\<close>
\<close>

definition scores_score_check :: "score_row \<Rightarrow> sql_bool" where
  "scores_score_check r =
     sql_and (sql_ge (sc_score r) (Some (Finite 0))) (sql_le (sc_score r) (Some (Finite 10)))"

text \<open>The closed interval \<open>[0,10]\<close> on \<^verbatim>\<open>numeric\<close> values.\<close>

definition in_0_10 :: "numeric \<Rightarrow> bool" where
  "in_0_10 v = (case v of Finite q \<Rightarrow> 0 \<le> q \<and> q \<le> 10 | _ \<Rightarrow> False)"

text \<open>
  \<^verbatim>\<open>UNIQUE(judge_id, team_id, round_id, criterion_name)\<close>: two rows conflict when all
  four columns are equal; a NULL in a column is equal to nothing (PostgreSQL's default,
  NULLS DISTINCT), and three of the four columns are nullable.
\<close>

definition scores_key_conflict :: "score_row \<Rightarrow> score_row \<Rightarrow> bool" where
  "scores_key_conflict r r' =
     is_true (sql_and (sql_eq (sc_judge_id r) (sc_judge_id r'))
       (sql_and (sql_eq (sc_team_id r) (sc_team_id r'))
         (sql_and (sql_eq (sc_round_id r) (sc_round_id r'))
           (sql_eq (sc_criterion_name r) (sc_criterion_name r')))))"

text \<open>
  \<^verbatim>\<open>INSERT INTO scores\<close> of one row, with every default already filled in. The checks
  run in PostgreSQL's order: NOT NULL, CHECK, the unique indexes, then the foreign keys.
\<close>

definition insert_score :: "db \<Rightarrow> score_row \<Rightarrow> db_error + db" where
  "insert_score d r =
     (if sc_criterion_name r = None then Inl (Not_null_violation ''criterion_name'')
      else if sc_score r = None then Inl (Not_null_violation ''score'')
      else if \<not> check_passes (scores_score_check r) then Inl (Check_violation ''scores_score_check'')
      else if sc_id r \<in> set (map sc_id (scores d)) then Inl (Unique_violation ''scores_pkey'')
      else if list_ex (scores_key_conflict r) (scores d)
        then Inl (Unique_violation ''scores_judge_id_team_id_round_id_criterion_name_key'')
      else if \<not> fk_ok (map judge_id (judges d)) (sc_judge_id r)
        then Inl (Foreign_key_violation ''scores_judge_id_fkey'')
      else if \<not> fk_ok (map team_id (teams d)) (sc_team_id r)
        then Inl (Foreign_key_violation ''scores_team_id_fkey'')
      else if \<not> fk_ok (map cat_id (categories d)) (sc_category_id r)
        then Inl (Foreign_key_violation ''scores_category_id_fkey'')
      else if \<not> fk_ok (map sr_id (scoring_rounds d)) (sc_round_id r)
        then Inl (Foreign_key_violation ''scores_round_id_fkey'')
      else Inr (d\<lparr>scores := scores d @ [r]\<rparr>))"

text \<open>
  \<^verbatim>\<open>UPDATE scores SET ... WHERE id = i\<close>, the row \<open>i\<close> taking the column values of \<open>r'\<close>.
  A statement that matches no row changes nothing.
\<close>

definition update_score :: "db \<Rightarrow> uuid \<Rightarrow> score_row \<Rightarrow> db_error + db" where
  "update_score d i r' =
     (if i \<notin> set (map sc_id (scores d)) then Inr d
      else if sc_criterion_name r' = None then Inl (Not_null_violation ''criterion_name'')
      else if sc_score r' = None then Inl (Not_null_violation ''score'')
      else if \<not> check_passes (scores_score_check r') then Inl (Check_violation ''scores_score_check'')
      else if list_ex (\<lambda>x. sc_id x \<noteq> i \<and> sc_id x = sc_id r') (scores d)
        then Inl (Unique_violation ''scores_pkey'')
      else if list_ex (\<lambda>x. sc_id x \<noteq> i \<and> scores_key_conflict r' x) (scores d)
        then Inl (Unique_violation ''scores_judge_id_team_id_round_id_criterion_name_key'')
      else if \<not> fk_ok (map judge_id (judges d)) (sc_judge_id r')
        then Inl (Foreign_key_violation ''scores_judge_id_fkey'')
      else if \<not> fk_ok (map team_id (teams d)) (sc_team_id r')
        then Inl (Foreign_key_violation ''scores_team_id_fkey'')
      else if \<not> fk_ok (map cat_id (categories d)) (sc_category_id r')
        then Inl (Foreign_key_violation ''scores_category_id_fkey'')
      else if \<not> fk_ok (map sr_id (scoring_rounds d)) (sc_round_id r')
        then Inl (Foreign_key_violation ''scores_round_id_fkey'')
      else Inr (d\<lparr>scores := map (\<lambda>x. if sc_id x = i then r' else x) (scores d)\<rparr>))"

text \<open>\<^verbatim>\<open>DELETE FROM scores WHERE p\<close>; nothing references a score row.\<close>

definition delete_scores :: "db \<Rightarrow> (score_row \<Rightarrow> bool) \<Rightarrow> db" where
  "delete_scores d p = d\<lparr>scores := filter (\<lambda>x. \<not> p x) (scores d)\<rparr>"

text \<open>
  Modelled from the spec: the statement by which the application submits a score is not
  part of the migration. The specification calls it an idempotent upsert, resolved by
  the unique constraint, in which the latest write wins, that is
  \<^verbatim>\<open>INSERT INTO scores ... ON CONFLICT (judge_id, team_id, round_id, criterion_name)
  DO UPDATE SET score = EXCLUDED.score\<close>.
  The proposed row passes NOT NULL and CHECK before the conflict is looked for; with a
  conflicting row the stored value is replaced, without one the row is inserted.
\<close>

definition upsert_score :: "db \<Rightarrow> score_row \<Rightarrow> db_error + db" where
  "upsert_score d r =
     (if sc_criterion_name r = None then Inl (Not_null_violation ''criterion_name'')
      else if sc_score r = None then Inl (Not_null_violation ''score'')
      else if \<not> check_passes (scores_score_check r) then Inl (Check_violation ''scores_score_check'')
      else if list_ex (scores_key_conflict r) (scores d)
        then Inr (d\<lparr>scores :=
          map (\<lambda>x. if scores_key_conflict r x then x\<lparr>sc_score := sc_score r\<rparr> else x) (scores d)\<rparr>)
      else insert_score d r)"

text \<open>
  The states the scores table can reach: from a table without rows, by the statements
  above; a statement on another table leaves the rows of scores as they are or, by
  \<^verbatim>\<open>ON DELETE CASCADE\<close>, deletes some of them.
\<close>

inductive reachable :: "db \<Rightarrow> bool" where
  reach_init: "scores d = [] \<Longrightarrow> reachable d"
| reach_insert: "reachable d \<Longrightarrow> insert_score d r = Inr d' \<Longrightarrow> reachable d'"
| reach_upsert: "reachable d \<Longrightarrow> upsert_score d r = Inr d' \<Longrightarrow> reachable d'"
| reach_update: "reachable d \<Longrightarrow> update_score d i r = Inr d' \<Longrightarrow> reachable d'"
| reach_delete: "reachable d \<Longrightarrow> scores d' = filter p (scores d) \<Longrightarrow> reachable d'"

text \<open>The key of a score row under the unique constraint, and the rows of a table that
  carry a given key.\<close>

type_synonym score_key = "uuid option \<times> uuid option \<times> uuid option \<times> string option"

definition score_key :: "score_row \<Rightarrow> score_key" where
  "score_key r = (sc_judge_id r, sc_team_id r, sc_round_id r, sc_criterion_name r)"

definition rows_with_key :: "score_key \<Rightarrow> score_row list \<Rightarrow> score_row list" where
  "rows_with_key k rs = filter (\<lambda>x. score_key x = k) rs"

text \<open>A key none of whose columns is NULL.\<close>

definition full_key :: "score_key \<Rightarrow> bool" where
  "full_key k = (case k of (Some j, Some t, Some r, Some c) \<Rightarrow> True | _ \<Rightarrow> False)"

text \<open>What the primary key and the unique constraint maintain on the rows of scores.\<close>

definition scores_inv :: "score_row list \<Rightarrow> bool" where
  "scores_inv rs =
     (distinct (map sc_id rs) \<and> (\<forall>k. full_key k \<longrightarrow> length (rows_with_key k rs) \<le> 1))"

section \<open>The scoring_rounds table\<close>

text \<open>What an \<^verbatim>\<open>INSERT\<close> says about a column that has a default: nothing, and the
  default is stored, or a value, which may be NULL.\<close>

datatype 'a column_input = Omitted | Given "'a option"

fun with_default :: "'a option \<Rightarrow> 'a column_input \<Rightarrow> 'a option" where
  "with_default dflt Omitted = dflt"
| "with_default dflt (Given v) = v"

text \<open>\<^verbatim>\<open>UNIQUE(event_id, round_number)\<close>, \<^verbatim>\<open>event_id\<close> being nullable.\<close>

definition rounds_key_conflict :: "scoring_round_row \<Rightarrow> scoring_round_row \<Rightarrow> bool" where
  "rounds_key_conflict r r' =
     is_true (sql_and (sql_eq (sr_event_id r) (sr_event_id r'))
                      (sql_eq (sr_round_number r) (sr_round_number r')))"

text \<open>
  \<^verbatim>\<open>INSERT INTO scoring_rounds\<close>: \<^verbatim>\<open>status text DEFAULT 'pending'\<close> is the only declaration
  of the column; the table has no \<^verbatim>\<open>CHECK\<close> constraint and \<^verbatim>\<open>status\<close> no \<^verbatim>\<open>NOT NULL\<close>.
\<close>

definition insert_scoring_round ::
  "db \<Rightarrow> scoring_round_row \<Rightarrow> string column_input \<Rightarrow> db_error + db" where
  "insert_scoring_round d r st =
     (let r' = r\<lparr>sr_status := with_default (Some ''pending'') st\<rparr> in
      if sr_round_number r' = None then Inl (Not_null_violation ''round_number'')
      else if sr_name r' = None then Inl (Not_null_violation ''name'')
      else if sr_id r' \<in> set (map sr_id (scoring_rounds d))
        then Inl (Unique_violation ''scoring_rounds_pkey'')
      else if list_ex (rounds_key_conflict r') (scoring_rounds d)
        then Inl (Unique_violation ''scoring_rounds_event_id_round_number_key'')
      else if \<not> fk_ok (map ev_id (events d)) (sr_event_id r')
        then Inl (Foreign_key_violation ''scoring_rounds_event_id_fkey'')
      else Inr (d\<lparr>scoring_rounds := scoring_rounds d @ [r']\<rparr>))"

text \<open>\<^verbatim>\<open>UPDATE scoring_rounds SET ... WHERE id = i\<close>, the row \<open>i\<close> taking the column values
  of \<open>r'\<close> and keeping its primary key.\<close>

definition update_scoring_round :: "db \<Rightarrow> uuid \<Rightarrow> scoring_round_row \<Rightarrow> db_error + db" where
  "update_scoring_round d i r' =
     (if i \<notin> set (map sr_id (scoring_rounds d)) then Inr d
      else if sr_round_number r' = None then Inl (Not_null_violation ''round_number'')
      else if sr_name r' = None then Inl (Not_null_violation ''name'')
      else if list_ex (\<lambda>x. sr_id x \<noteq> i \<and> rounds_key_conflict r' x) (scoring_rounds d)
        then Inl (Unique_violation ''scoring_rounds_event_id_round_number_key'')
      else if \<not> fk_ok (map ev_id (events d)) (sr_event_id r')
        then Inl (Foreign_key_violation ''scoring_rounds_event_id_fkey'')
      else Inr (d\<lparr>scoring_rounds :=
        map (\<lambda>x. if sr_id x = i then r'\<lparr>sr_id := i\<rparr> else x) (scoring_rounds d)\<rparr>))"

text \<open>The three values of the lifecycle.\<close>

definition lifecycle_status :: "string option \<Rightarrow> bool" where
  "lifecycle_status st = (st \<in> {Some ''pending'', Some ''active'', Some ''completed''})"

section \<open>The teams table\<close>

text \<open>
  \<^verbatim>\<open>INSERT INTO teams\<close>: \<^verbatim>\<open>event_id uuid REFERENCES events(id) ON DELETE CASCADE\<close> and
  \<^verbatim>\<open>category_id uuid REFERENCES categories(id)\<close> are two independent foreign keys, both
  nullable; no constraint relates the two.
\<close>

definition insert_team :: "db \<Rightarrow> team_row \<Rightarrow> db_error + db" where
  "insert_team d r =
     (if team_name r = None then Inl (Not_null_violation ''name'')
      else if team_id r \<in> set (map team_id (teams d)) then Inl (Unique_violation ''teams_pkey'')
      else if \<not> fk_ok (map ev_id (events d)) (team_event_id r)
        then Inl (Foreign_key_violation ''teams_event_id_fkey'')
      else if \<not> fk_ok (map cat_id (categories d)) (team_category_id r)
        then Inl (Foreign_key_violation ''teams_category_id_fkey'')
      else Inr (d\<lparr>teams := teams d @ [r]\<rparr>))"

text \<open>\<^verbatim>\<open>UPDATE teams SET ... WHERE id = i\<close>, the row \<open>i\<close> taking the column values of \<open>r'\<close>
  and keeping its primary key.\<close>

definition update_team :: "db \<Rightarrow> uuid \<Rightarrow> team_row \<Rightarrow> db_error + db" where
  "update_team d i r' =
     (if i \<notin> set (map team_id (teams d)) then Inr d
      else if team_name r' = None then Inl (Not_null_violation ''name'')
      else if \<not> fk_ok (map ev_id (events d)) (team_event_id r')
        then Inl (Foreign_key_violation ''teams_event_id_fkey'')
      else if \<not> fk_ok (map cat_id (categories d)) (team_category_id r')
        then Inl (Foreign_key_violation ''teams_category_id_fkey'')
      else Inr (d\<lparr>teams := map (\<lambda>x. if team_id x = i then r'\<lparr>team_id := i\<rparr> else x) (teams d)\<rparr>))"

text \<open>The foreign key of \<^verbatim>\<open>teams.category_id\<close>, on a whole table and on one row, and the
  property that a team's category is a category of the team's own event.\<close>

definition team_category_exists :: "db \<Rightarrow> team_row \<Rightarrow> bool" where
  "team_category_exists d t = fk_ok (map cat_id (categories d)) (team_category_id t)"

definition team_category_same_event :: "db \<Rightarrow> team_row \<Rightarrow> bool" where
  "team_category_same_event d t =
     (case team_category_id t of
        None \<Rightarrow> True
      | Some c \<Rightarrow> list_all (\<lambda>k. cat_id k \<noteq> c \<or> cat_event_id k = team_event_id t) (categories d))"

section \<open>Deleting an event\<close>

text \<open>The primary keys of the rows that reference the event \<open>eid\<close> directly.\<close>

definition event_category_ids :: "db \<Rightarrow> uuid \<Rightarrow> uuid list" where
  "event_category_ids d eid = map cat_id (filter (\<lambda>c. cat_event_id c = Some eid) (categories d))"

definition event_team_ids :: "db \<Rightarrow> uuid \<Rightarrow> uuid list" where
  "event_team_ids d eid = map team_id (filter (\<lambda>t. team_event_id t = Some eid) (teams d))"

definition event_judge_ids :: "db \<Rightarrow> uuid \<Rightarrow> uuid list" where
  "event_judge_ids d eid = map judge_id (filter (\<lambda>j. judge_event_id j = Some eid) (judges d))"

definition event_round_ids :: "db \<Rightarrow> uuid \<Rightarrow> uuid list" where
  "event_round_ids d eid = map sr_id (filter (\<lambda>r. sr_event_id r = Some eid) (scoring_rounds d))"

text \<open>
  \<^verbatim>\<open>DELETE FROM events WHERE id = eid\<close>. The foreign keys declared \<^verbatim>\<open>ON DELETE CASCADE\<close>
  delete the referencing rows: categories, teams, judges, scoring_rounds and
  final_results by \<^verbatim>\<open>event_id\<close>, and then judge_assignments, scores, normalized_scores and
  final_results by the judge, category, team or round they reference. The one foreign key
  on this path declared without an action, \<^verbatim>\<open>teams.category_id\<close>, is checked when the
  statement ends: a team that is still there and references a deleted category makes
  the statement fail, and nothing is deleted.
\<close>

definition delete_event :: "db \<Rightarrow> uuid \<Rightarrow> db_error + db" where
  "delete_event d eid =
     (if eid \<notin> set (map ev_id (events d)) then Inr d
      else
        let cs = event_category_ids d eid; ts = event_team_ids d eid;
            js = event_judge_ids d eid; rs = event_round_ids d eid
        in if list_ex (\<lambda>t. team_event_id t \<noteq> Some eid \<and> refers_to cs (team_category_id t)) (teams d)
           then Inl (Foreign_key_violation ''teams_category_id_fkey'')
           else Inr (d\<lparr>
             events := filter (\<lambda>e. ev_id e \<noteq> eid) (events d),
             categories := filter (\<lambda>c. cat_event_id c \<noteq> Some eid) (categories d),
             teams := filter (\<lambda>t. team_event_id t \<noteq> Some eid) (teams d),
             judges := filter (\<lambda>j. judge_event_id j \<noteq> Some eid) (judges d),
             scoring_rounds := filter (\<lambda>r. sr_event_id r \<noteq> Some eid) (scoring_rounds d),
             judge_assignments := filter (\<lambda>a. \<not> refers_to js (ja_judge_id a) \<and>
                 \<not> refers_to cs (ja_category_id a) \<and> \<not> refers_to ts (ja_team_id a))
               (judge_assignments d),
             scores := filter (\<lambda>s. \<not> refers_to js (sc_judge_id s) \<and>
                 \<not> refers_to ts (sc_team_id s) \<and> \<not> refers_to cs (sc_category_id s) \<and>
                 \<not> refers_to rs (sc_round_id s))
               (scores d),
             normalized_scores := filter (\<lambda>n. \<not> refers_to js (ns_judge_id n) \<and>
                 \<not> refers_to ts (ns_team_id n) \<and> \<not> refers_to rs (ns_round_id n))
               (normalized_scores d),
             final_results := filter (\<lambda>f. fr_event_id f \<noteq> Some eid \<and>
                 \<not> refers_to ts (fr_team_id f))
               (final_results d)\<rparr>))"

text \<open>
  Descent from the event \<open>eid\<close> along the foreign keys, of whatever action: a category,
  judge or round of the event; a team of the event or of one of its categories; a row
  that references a descendant.
\<close>

definition team_descends :: "db \<Rightarrow> uuid \<Rightarrow> team_row \<Rightarrow> bool" where
  "team_descends d eid t =
     (team_event_id t = Some eid \<or> refers_to (event_category_ids d eid) (team_category_id t))"

definition descendant_team_ids :: "db \<Rightarrow> uuid \<Rightarrow> uuid list" where
  "descendant_team_ids d eid = map team_id (filter (team_descends d eid) (teams d))"

definition assignment_descends :: "db \<Rightarrow> uuid \<Rightarrow> judge_assignment_row \<Rightarrow> bool" where
  "assignment_descends d eid a =
     (refers_to (event_judge_ids d eid) (ja_judge_id a) \<or>
      refers_to (event_category_ids d eid) (ja_category_id a) \<or>
      refers_to (descendant_team_ids d eid) (ja_team_id a))"

definition score_descends :: "db \<Rightarrow> uuid \<Rightarrow> score_row \<Rightarrow> bool" where
  "score_descends d eid s =
     (refers_to (event_judge_ids d eid) (sc_judge_id s) \<or>
      refers_to (descendant_team_ids d eid) (sc_team_id s) \<or>
      refers_to (event_category_ids d eid) (sc_category_id s) \<or>
      refers_to (event_round_ids d eid) (sc_round_id s))"

definition normalized_score_descends :: "db \<Rightarrow> uuid \<Rightarrow> normalized_score_row \<Rightarrow> bool" where
  "normalized_score_descends d eid n =
     (refers_to (event_judge_ids d eid) (ns_judge_id n) \<or>
      refers_to (descendant_team_ids d eid) (ns_team_id n) \<or>
      refers_to (event_round_ids d eid) (ns_round_id n))"

definition final_result_descends :: "db \<Rightarrow> uuid \<Rightarrow> final_result_row \<Rightarrow> bool" where
  "final_result_descends d eid f =
     (fr_event_id f = Some eid \<or> refers_to (descendant_team_ids d eid) (fr_team_id f))"

text \<open>No team of another event (or of none) has a category of the event \<open>eid\<close>.\<close>

definition no_foreign_team :: "db \<Rightarrow> uuid \<Rightarrow> bool" where
  "no_foreign_team d eid =
     list_all (\<lambda>t. team_event_id t = Some eid \<or>
        \<not> refers_to (event_category_ids d eid) (team_category_id t)) (teams d)"

section \<open>Row-level security\<close>

text \<open>
  Every table has row-level security enabled, and every policy of the migration is
  permissive. A caller acts under one of the two roles the policies name; \<^verbatim>\<open>auth.uid()\<close>
  is the identifier of the signed-in user, NULL without a session.
\<close>

datatype role = Anon | Authenticated

record auth =
  auth_role :: role
  auth_uid :: "uuid option"

datatype command = Select | Insert | Update | Delete

text \<open>
  \<^verbatim>\<open>CREATE POLICY name ON table FOR cmd TO roles USING (e) WITH CHECK (e')\<close>;
  \<^verbatim>\<open>FOR ALL\<close> is \<open>None\<close>, an absent clause is \<open>None\<close>.
\<close>

record 'r policy =
  pol_name :: string
  pol_for :: "command option"
  pol_to :: "role list"
  pol_using :: "(auth \<Rightarrow> db \<Rightarrow> 'r \<Rightarrow> sql_bool) option"
  pol_with_check :: "(auth \<Rightarrow> db \<Rightarrow> 'r \<Rightarrow> sql_bool) option"

definition applies :: "'r policy \<Rightarrow> command \<Rightarrow> auth \<Rightarrow> bool" where
  "applies p c a = ((pol_for p = None \<or> pol_for p = Some c) \<and> auth_role a \<in> set (pol_to p))"

text \<open>An existing row is visible to a command when the \<^verbatim>\<open>USING\<close> expression of some
  applicable policy is TRUE; with no such policy the row is hidden.\<close>

definition using_ok :: "'r policy list \<Rightarrow> command \<Rightarrow> auth \<Rightarrow> db \<Rightarrow> 'r \<Rightarrow> bool" where
  "using_ok ps c a d r =
     list_ex (\<lambda>p. applies p c a \<and>
       (case pol_using p of None \<Rightarrow> False | Some e \<Rightarrow> is_true (e a d r))) ps"

text \<open>A new row is accepted when the \<^verbatim>\<open>WITH CHECK\<close> expression of some applicable policy
  is TRUE; a policy without \<^verbatim>\<open>WITH CHECK\<close> checks its \<^verbatim>\<open>USING\<close> expression instead.\<close>

definition check_ok :: "'r policy list \<Rightarrow> command \<Rightarrow> auth \<Rightarrow> db \<Rightarrow> 'r \<Rightarrow> bool" where
  "check_ok ps c a d r =
     list_ex (\<lambda>p. applies p c a \<and>
       (case pol_with_check p of
          Some e \<Rightarrow> is_true (e a d r)
        | None \<Rightarrow> (case pol_using p of None \<Rightarrow> False | Some e \<Rightarrow> is_true (e a d r)))) ps"

definition select_visible :: "'r policy list \<Rightarrow> auth \<Rightarrow> db \<Rightarrow> 'r \<Rightarrow> bool" where
  "select_visible ps a d r = using_ok ps Select a d r"

definition insert_permitted :: "'r policy list \<Rightarrow> auth \<Rightarrow> db \<Rightarrow> 'r \<Rightarrow> bool" where
  "insert_permitted ps a d r = check_ok ps Insert a d r"

definition update_permitted :: "'r policy list \<Rightarrow> auth \<Rightarrow> db \<Rightarrow> 'r \<Rightarrow> 'r \<Rightarrow> bool" where
  "update_permitted ps a d old new = (using_ok ps Update a d old \<and> check_ok ps Update a d new)"

definition delete_permitted :: "'r policy list \<Rightarrow> auth \<Rightarrow> db \<Rightarrow> 'r \<Rightarrow> bool" where
  "delete_permitted ps a d r = using_ok ps Delete a d r"

subsection \<open>The policy expressions\<close>

text \<open>
  \<^verbatim>\<open>EXISTS (SELECT 1 FROM events WHERE events.id = x.event_id
    AND events.created_by = auth.uid())\<close>
\<close>

definition owns_event :: "auth \<Rightarrow> db \<Rightarrow> uuid option \<Rightarrow> sql_bool" where
  "owns_event a d eid =
     Some (list_ex (\<lambda>e. is_true (sql_and (sql_eq (Some (ev_id e)) eid)
                                  (sql_eq (ev_created_by e) (auth_uid a)))) (events d))"

text \<open>
  \<^verbatim>\<open>EXISTS (SELECT 1 FROM judges j JOIN events e ON e.id = j.event_id
    WHERE j.id = x.judge_id AND e.created_by = auth.uid())\<close>
\<close>

definition owns_judge :: "auth \<Rightarrow> db \<Rightarrow> uuid option \<Rightarrow> sql_bool" where
  "owns_judge a d jid =
     Some (list_ex (\<lambda>j. list_ex (\<lambda>e.
        is_true (sql_eq (Some (ev_id e)) (judge_event_id j)) \<and>
        is_true (sql_and (sql_eq (Some (judge_id j)) jid)
                         (sql_eq (ev_created_by e) (auth_uid a)))) (events d)) (judges d))"

text \<open>
  \<^verbatim>\<open>EXISTS (SELECT 1 FROM teams t JOIN events e ON e.id = t.event_id
    WHERE t.id = x.team_id AND e.created_by = auth.uid())\<close>
\<close>

definition owns_team :: "auth \<Rightarrow> db \<Rightarrow> uuid option \<Rightarrow> sql_bool" where
  "owns_team a d tid =
     Some (list_ex (\<lambda>t. list_ex (\<lambda>e.
        is_true (sql_eq (Some (ev_id e)) (team_event_id t)) \<and>
        is_true (sql_and (sql_eq (Some (team_id t)) tid)
                         (sql_eq (ev_created_by e) (auth_uid a)))) (events d)) (teams d))"

subsection \<open>The policies, table by table\<close>

definition events_policies :: "event_row policy list" where
  "events_policies =
    [\<lparr>pol_name = ''Users can view their events'', pol_for = Some Select,
      pol_to = [Authenticated],
      pol_using = Some (\<lambda>a d r. sql_eq (ev_created_by r) (auth_uid a)),
      pol_with_check = None\<rparr>,
     \<lparr>pol_name = ''Users can insert their events'', pol_for = Some Insert,
      pol_to = [Authenticated],
      pol_using = None,
      pol_with_check = Some (\<lambda>a d r. sql_eq (ev_created_by r) (auth_uid a))\<rparr>,
     \<lparr>pol_name = ''Users can update their events'', pol_for = Some Update,
      pol_to = [Authenticated],
      pol_using = Some (\<lambda>a d r. sql_eq (ev_created_by r) (auth_uid a)),
      pol_with_check = Some (\<lambda>a d r. sql_eq (ev_created_by r) (auth_uid a))\<rparr>,
     \<lparr>pol_name = ''Users can delete their events'', pol_for = Some Delete,
      pol_to = [Authenticated],
      pol_using = Some (\<lambda>a d r. sql_eq (ev_created_by r) (auth_uid a)),
      pol_with_check = None\<rparr>]"

definition categories_policies :: "category_row policy list" where
  "categories_policies =
    [\<lparr>pol_name = ''Users can manage categories for their events'', pol_for = None,
      pol_to = [Authenticated],
      pol_using = Some (\<lambda>a d r. owns_event a d (cat_event_id r)),
      pol_with_check = None\<rparr>]"

definition teams_policies :: "team_row policy list" where
  "teams_policies =
    [\<lparr>pol_name = ''Users can manage teams for their events'', pol_for = None,
      pol_to = [Authenticated],
      pol_using = Some (\<lambda>a d r. owns_event a d (team_event_id r)),
      pol_with_check = None\<rparr>]"

definition judges_policies :: "judge_row policy list" where
  "judges_policies =
    [\<lparr>pol_name = ''Users can manage judges for their events'', pol_for = None,
      pol_to = [Authenticated],
      pol_using = Some (\<lambda>a d r. owns_event a d (judge_event_id r)),
      pol_with_check = None\<rparr>,
     \<lparr>pol_name = ''Judges can view their own profile by token'', pol_for = Some Select,
      pol_to = [Anon, Authenticated],
      pol_using = Some (\<lambda>a d r. Some True),
      pol_with_check = None\<rparr>]"

definition judge_assignments_policies :: "judge_assignment_row policy list" where
  "judge_assignments_policies =
    [\<lparr>pol_name = ''Users can manage judge assignments for their events'', pol_for = None,
      pol_to = [Authenticated],
      pol_using = Some (\<lambda>a d r. owns_judge a d (ja_judge_id r)),
      pol_with_check = None\<rparr>,
     \<lparr>pol_name = ''Judges can view their assignments'', pol_for = Some Select,
      pol_to = [Anon, Authenticated],
      pol_using = Some (\<lambda>a d r. Some True),
      pol_with_check = None\<rparr>]"

definition scoring_rounds_policies :: "scoring_round_row policy list" where
  "scoring_rounds_policies =
    [\<lparr>pol_name = ''Users can manage rounds for their events'', pol_for = None,
      pol_to = [Authenticated],
      pol_using = Some (\<lambda>a d r. owns_event a d (sr_event_id r)),
      pol_with_check = None\<rparr>,
     \<lparr>pol_name = ''Judges can view rounds'', pol_for = Some Select,
      pol_to = [Anon, Authenticated],
      pol_using = Some (\<lambda>a d r. Some True),
      pol_with_check = None\<rparr>]"

definition scores_policies :: "score_row policy list" where
  "scores_policies =
    [\<lparr>pol_name = ''Judges can manage their own scores'', pol_for = None,
      pol_to = [Anon, Authenticated],
      pol_using = Some (\<lambda>a d r. Some True),
      pol_with_check = Some (\<lambda>a d r. Some True)\<rparr>,
     \<lparr>pol_name = ''Event owners can view all scores'', pol_for = Some Select,
      pol_to = [Authenticated],
      pol_using = Some (\<lambda>a d r. owns_team a d (sc_team_id r)),
      pol_with_check = None\<rparr>]"

definition normalized_scores_policies :: "normalized_score_row policy list" where
  "normalized_scores_policies =
    [\<lparr>pol_name = ''Event owners can manage normalized scores'', pol_for = None,
      pol_to = [Authenticated],
      pol_using = Some (\<lambda>a d r. owns_team a d (ns_team_id r)),
      pol_with_check = None\<rparr>]"

definition final_results_policies :: "final_result_row policy list" where
  "final_results_policies =
    [\<lparr>pol_name = ''Users can view final results for their events'', pol_for = Some Select,
      pol_to = [Authenticated],
      pol_using = Some (\<lambda>a d r. owns_event a d (fr_event_id r)),
      pol_with_check = None\<rparr>,
     \<lparr>pol_name = ''Users can manage final results for their events'', pol_for = Some Insert,
      pol_to = [Authenticated],
      pol_using = None,
      pol_with_check = Some (\<lambda>a d r. owns_event a d (fr_event_id r))\<rparr>,
     \<lparr>pol_name = ''Users can update final results for their events'', pol_for = Some Update,
      pol_to = [Authenticated],
      pol_using = Some (\<lambda>a d r. owns_event a d (fr_event_id r)),
      pol_with_check = Some (\<lambda>a d r. owns_event a d (fr_event_id r))\<rparr>]"

subsection \<open>Statements under row-level security\<close>

text \<open>
  An insert whose row no policy accepts is an error; an update or a delete passes over
  the rows its caller may not touch, and an update whose new row no policy accepts is an
  error; a select returns the visible rows.
\<close>

datatype stmt_error = Rls_violation string | Constraint db_error

definition rls_insert_score :: "auth \<Rightarrow> db \<Rightarrow> score_row \<Rightarrow> stmt_error + db" where
  "rls_insert_score a d r =
     (if \<not> insert_permitted scores_policies a d r then Inl (Rls_violation ''scores'')
      else case insert_score d r of Inl e \<Rightarrow> Inl (Constraint e) | Inr d' \<Rightarrow> Inr d')"

definition rls_update_score :: "auth \<Rightarrow> db \<Rightarrow> uuid \<Rightarrow> score_row \<Rightarrow> stmt_error + db" where
  "rls_update_score a d i r' =
     (if \<not> list_ex (\<lambda>x. sc_id x = i \<and> using_ok scores_policies Update a d x) (scores d) then Inr d
      else if \<not> check_ok scores_policies Update a d r' then Inl (Rls_violation ''scores'')
      else case update_score d i r' of Inl e \<Rightarrow> Inl (Constraint e) | Inr d' \<Rightarrow> Inr d')"

definition rls_delete_scores :: "auth \<Rightarrow> db \<Rightarrow> (score_row \<Rightarrow> bool) \<Rightarrow> db" where
  "rls_delete_scores a d p =
     delete_scores d (\<lambda>x. p x \<and> delete_permitted scores_policies a d x)"

definition rls_select_judges :: "auth \<Rightarrow> db \<Rightarrow> judge_row list" where
  "rls_select_judges a d = filter (select_visible judges_policies a d) (judges d)"

text \<open>A caller without a session and without a token.\<close>

definition anonymous :: auth where
  "anonymous = \<lparr>auth_role = Anon, auth_uid = None\<rparr>"

section \<open>The invitation function\<close>

text \<open>
  \<^verbatim>\<open>supabase/functions/send-judge-invitation/index.ts\<close>. A JSON value as
  \<^verbatim>\<open>JSON.parse\<close> returns it: a number is kept as the decimal text that JavaScript's
  conversion to string gives for it (\<open>0\<close> for both zeros), an object as the list of its
  own properties, each key once. A string is the sequence of its characters; the
  function only concatenates strings.
\<close>

datatype json =
    JNull
  | JBool bool
  | JNum string
  | JStr string
  | JArr "json list"
  | JObj "(string \<times> json) list"

text \<open>A thrown value: every exception of the function is an error object of the
  runtime, with its \<^verbatim>\<open>name\<close> and its \<^verbatim>\<open>message\<close>.\<close>

datatype js_error = Js_error (err_name: string) (err_message: string)

text \<open>The wording of the two \<^verbatim>\<open>TypeError\<close>s that the engine itself raises is the
  engine's.\<close>

record engine =
  destructure_message :: string
  to_primitive_message :: string

definition v8 :: engine where
  "v8 = \<lparr>destructure_message =
            ''Cannot destructure property 'judgeName' of '(intermediate value)' as it is null.'',
          to_primitive_message = ''Cannot convert object to primitive value''\<rparr>"

text \<open>
  A request, as far as the function looks at it: the method, and what
  \<^verbatim>\<open>await req.json()\<close> settles to, the parsed body or the exception raised for a body that
  is not JSON.
\<close>

record request =
  req_method :: string
  req_json :: "js_error + json"

record response =
  status :: nat
  headers :: "(string \<times> string) list"
  body :: "json option"

datatype log_entry = Log string | Log_error string js_error

definition corsHeaders :: "(string \<times> string) list" where
  "corsHeaders =
     [(''Access-Control-Allow-Origin'', ''*''),
      (''Access-Control-Allow-Methods'', ''GET, POST, PUT, DELETE, OPTIONS''),
      (''Access-Control-Allow-Headers'', ''Content-Type, Authorization, X-Client-Info, Apikey'')]"

text \<open>
  The conversion of a value to a string inside a template literal. An array joins its
  elements with commas, \<^verbatim>\<open>null\<close> elements giving the empty string. An object is
  \<^verbatim>\<open>[object Object]\<close> by the inherited \<^verbatim>\<open>toString\<close>, unless it has an own property
  \<^verbatim>\<open>toString\<close>: a JSON value is never callable, the inherited \<^verbatim>\<open>valueOf\<close> returns the
  object, and the conversion raises a \<^verbatim>\<open>TypeError\<close>.
\<close>

fun js_string :: "engine \<Rightarrow> json \<Rightarrow> js_error + string"
  and js_join :: "engine \<Rightarrow> json list \<Rightarrow> js_error + string"
  and js_element :: "engine \<Rightarrow> json \<Rightarrow> js_error + string" where
  "js_string en JNull = Inr ''null''"
| "js_string en (JBool b) = Inr (if b then ''true'' else ''false'')"
| "js_string en (JNum n) = Inr n"
| "js_string en (JStr s) = Inr s"
| "js_string en (JArr xs) = js_join en xs"
| "js_string en (JObj kvs) =
     (if ''toString'' \<in> set (map fst kvs)
      then Inl (Js_error ''TypeError'' (to_primitive_message en))
      else Inr ''[object Object]'')"
| "js_join en [] = Inr []"
| "js_join en [x] = js_element en x"
| "js_join en (x # y # ys) =
     (case js_element en x of
        Inl e \<Rightarrow> Inl e
      | Inr s \<Rightarrow> (case js_join en (y # ys) of Inl e \<Rightarrow> Inl e | Inr r \<Rightarrow> Inr (s @ '','' @ r)))"
| "js_element en JNull = Inr []"
| "js_element en (JBool b) = js_string en (JBool b)"
| "js_element en (JNum n) = js_string en (JNum n)"
| "js_element en (JStr s) = js_string en (JStr s)"
| "js_element en (JArr xs) = js_string en (JArr xs)"
| "js_element en (JObj kvs) = js_string en (JObj kvs)"

text \<open>A destructured variable holds a value or \<^verbatim>\<open>undefined\<close>.\<close>

fun to_string :: "engine \<Rightarrow> json option \<Rightarrow> js_error + string" where
  "to_string en None = Inr ''undefined''"
| "to_string en (Some v) = js_string en v"

text \<open>
  \<^verbatim>\<open>const { judgeName, judgeEmail, eventName, accessToken, dashboardUrl } = await req.json()\<close>:
  destructuring \<^verbatim>\<open>null\<close> raises; an object gives its properties, \<^verbatim>\<open>undefined\<close> for the
  missing ones; any other value has none of the five properties.
\<close>

record invitation =
  judgeName :: "json option"
  judgeEmail :: "json option"
  eventName :: "json option"
  accessToken :: "json option"
  dashboardUrl :: "json option"

fun property :: "json \<Rightarrow> string \<Rightarrow> json option" where
  "property (JObj kvs) k = map_of kvs k"
| "property _ k = None"

definition destructure :: "engine \<Rightarrow> json \<Rightarrow> js_error + invitation" where
  "destructure en v =
     (if v = JNull then Inl (Js_error ''TypeError'' (destructure_message en))
      else Inr \<lparr>judgeName = property v ''judgeName'', judgeEmail = property v ''judgeEmail'',
                eventName = property v ''eventName'', accessToken = property v ''accessToken'',
                dashboardUrl = property v ''dashboardUrl''\<rparr>)"

text \<open>The template literal of \<^verbatim>\<open>emailContent\<close>: seven pieces of text around six
  substitutions, converted to strings from left to right.\<close>

definition email_part_0 :: string where
  \<open>email_part_0 =
     ''\<newline>'' @
     ''      <html>\<newline>'' @
     ''        <body style="font-family: Arial, sans-serif; max-width: 600px; margin: 0 auto; padding: 20px;">\<newline>'' @
     ''          <h2 style="color: #2563eb;">Judge Invitation - ''\<close>

definition email_part_1 :: string where
  \<open>email_part_1 =
     ''</h2>\<newline>'' @
     ''          <p>Dear ''\<close>

definition email_part_2 :: string where
  \<open>email_part_2 =
     '',</p>\<newline>'' @
     ''          <p>You have been invited to judge the event: <strong>''\<close>

definition email_part_3 :: string where
  \<open>email_part_3 =
     ''</strong></p>\<newline>'' @
     ''          <p>Please use the link below to access your judging dashboard:</p>\<newline>'' @
     ''          <div style="background-color: #f3f4f6; padding: 20px; border-radius: 8px; margin: 20px 0;">\<newline>'' @
     ''            <p style="margin: 0;"><strong>Dashboard Link:</strong></p>\<newline>'' @
     ''            <a href="''\<close>

definition email_part_4 :: string where
  \<open>email_part_4 =
     ''?token=''\<close>

definition email_part_5 :: string where
  \<open>email_part_5 =
     ''"\<newline>'' @
     ''               style="display: inline-block; margin-top: 10px; padding: 12px 24px; background-color: #2563eb; color: white; text-decoration: none; border-radius: 6px;">\<newline>'' @
     ''              Access Judging Dashboard\<newline>'' @
     ''            </a>\<newline>'' @
     ''          </div>\<newline>'' @
     ''          <p style="color: #6b7280; font-size: 14px;">\<newline>'' @
     ''            Your access token: <code style="background-color: #f3f4f6; padding: 4px 8px; border-radius: 4px;">''\<close>

definition email_part_6 :: string where
  \<open>email_part_6 =
     ''</code>\<newline>'' @
     ''          </p>\<newline>'' @
     ''          <p>Best regards,<br/>Event Management Team</p>\<newline>'' @
     ''        </body>\<newline>'' @
     ''      </html>\<newline>'' @
     ''    ''\<close>

fun template :: "engine \<Rightarrow> string \<Rightarrow> (json option \<times> string) list \<Rightarrow> js_error + string" where
  "template en p [] = Inr p"
| "template en p ((v, q) # rest) =
     (case to_string en v of
        Inl e \<Rightarrow> Inl e
      | Inr s \<Rightarrow> (case template en q rest of Inl e \<Rightarrow> Inl e | Inr r \<Rightarrow> Inr (p @ s @ r)))"

definition emailContent :: "engine \<Rightarrow> invitation \<Rightarrow> js_error + string" where
  "emailContent en i =
     template en email_part_0
       [(eventName i, email_part_1), (judgeName i, email_part_2), (eventName i, email_part_3),
        (dashboardUrl i, email_part_4), (accessToken i, email_part_5),
        (accessToken i, email_part_6)]"

text \<open>The four \<^verbatim>\<open>console.log\<close> calls, each of a template literal: the lines written, and
  the exception that ended them, if any.\<close>

fun console_logs :: "engine \<Rightarrow> (string \<times> json option) list \<Rightarrow> log_entry list \<times> js_error option" where
  "console_logs en [] = ([], None)"
| "console_logs en ((p, v) # rest) =
     (case to_string en v of
        Inl e \<Rightarrow> ([], Some e)
      | Inr s \<Rightarrow> (case console_logs en rest of (ls, r) \<Rightarrow> (Log (p @ s) # ls, r)))"

text \<open>The body of \<^verbatim>\<open>try\<close>: the response and the log, or the log so far and the exception.\<close>

definition try_block ::
  "engine \<Rightarrow> request \<Rightarrow> (log_entry list \<times> js_error) + (response \<times> log_entry list)" where
  "try_block en req =
     (case req_json req of
        Inl e \<Rightarrow> Inl ([], e)
      | Inr v \<Rightarrow>
         (case destructure en v of
            Inl e \<Rightarrow> Inl ([], e)
          | Inr i \<Rightarrow>
             (case emailContent en i of
                Inl e \<Rightarrow> Inl ([], e)
              | Inr content \<Rightarrow>
                 (case console_logs en
                         [(''Email would be sent to: '', judgeEmail i), (''Event: '', eventName i),
                          (''Access Token: '', accessToken i), (''Dashboard URL: '', dashboardUrl i)] of
                    (ls, Some e) \<Rightarrow> Inl (ls, e)
                  | (ls, None) \<Rightarrow>
                      Inr (\<lparr>status = 200,
                            headers = corsHeaders @ [(''Content-Type'', ''application/json'')],
                            body = Some (JObj [(''success'', JBool True),
                              (''message'', JStr ''Invitation email sent successfully''),
                              (''preview'', JStr content)])\<rparr>, ls)))))"

text \<open>The \<^verbatim>\<open>catch\<close> clause: \<^verbatim>\<open>error.message || "Failed to send invitation"\<close>.\<close>

definition error_response :: "js_error \<Rightarrow> response" where
  "error_response e =
     \<lparr>status = 500,
      headers = corsHeaders @ [(''Content-Type'', ''application/json'')],
      body = Some (JObj [(''success'', JBool False),
        (''error'', JStr (if err_message e = [] then ''Failed to send invitation''
                          else err_message e))])\<rparr>"

text \<open>The handler given to \<^verbatim>\<open>Deno.serve\<close>: the response, whose body is the value handed
  to \<^verbatim>\<open>JSON.stringify\<close>, and the lines written to the console.\<close>

definition handler :: "engine \<Rightarrow> request \<Rightarrow> response \<times> log_entry list" where
  "handler en req =
     (if req_method req = ''OPTIONS''
      then (\<lparr>status = 200, headers = corsHeaders, body = None\<rparr>, [])
      else
        (case try_block en req of
           Inr (resp, ls) \<Rightarrow> (resp, ls)
         | Inl (ls, e) \<Rightarrow> (error_response e, ls @ [Log_error ''Error sending invitation:'' e])))"

text \<open>The request of the specification's example.\<close>

definition ana_request :: request where
  "ana_request = \<lparr>req_method = ''POST'',
     req_json = Inr (JObj [(''judgeName'', JStr ''Ana''), (''judgeEmail'', JStr ''a@x.com''),
       (''eventName'', JStr ''HackX''), (''accessToken'', JStr ''tok123''),
       (''dashboardUrl'', JStr ''https://d.example/judge'')])\<rparr>"

text \<open>A request whose body is not JSON, one whose body is \<^verbatim>\<open>null\<close>, and one whose event
  name is an object that cannot be converted to a string.\<close>

definition bad_json_request :: request where
  "bad_json_request = \<lparr>req_method = ''POST'',
     req_json = Inl (Js_error ''SyntaxError'' ''Unexpected end of JSON input'')\<rparr>"

definition null_request :: request where
  "null_request = \<lparr>req_method = ''POST'', req_json = Inr JNull\<rparr>"

definition unprintable_request :: request where
  "unprintable_request = \<lparr>req_method = ''POST'',
     req_json = Inr (JObj [(''judgeName'', JStr ''Ana''), (''judgeEmail'', JStr ''a@x.com''),
       (''eventName'', JObj [(''toString'', JNum ''1'')]), (''accessToken'', JStr ''tok123''),
       (''dashboardUrl'', JStr ''https://d.example/judge'')])\<rparr>"

section \<open>The client-side state mirror\<close>

text \<open>
  \<^verbatim>\<open>loadData\<close> of the application context reads five keys of \<^verbatim>\<open>localStorage\<close> with
  \<^verbatim>\<open>JSON.parse(localStorage.getItem(key)) || seed\<close>. What a key holds is told apart by what
  \<^verbatim>\<open>JSON.parse\<close> does with it: nothing is stored under the key, or a text that
  \<^verbatim>\<open>JSON.parse\<close> rejects with an exception, or a text that it parses to a value.
\<close>

datatype stored = Absent | Unparsable js_error | Parsable json

type_synonym local_storage = "string \<Rightarrow> stored"

text \<open>\<^verbatim>\<open>JSON.parse(localStorage.getItem(key))\<close>: for an absent key \<^verbatim>\<open>getItem\<close> returns
  \<^verbatim>\<open>null\<close>, which \<^verbatim>\<open>JSON.parse\<close> converts to the text \<^verbatim>\<open>null\<close> and parses to \<^verbatim>\<open>null\<close>.\<close>

fun parse_item :: "stored \<Rightarrow> js_error + json" where
  "parse_item Absent = Inr JNull"
| "parse_item (Unparsable e) = Inl e"
| "parse_item (Parsable v) = Inr v"

text \<open>The values that \<^verbatim>\<open>||\<close> takes for false, among the values of JSON: \<^verbatim>\<open>null\<close>,
  \<^verbatim>\<open>false\<close>, zero and the empty string.\<close>

fun truthy :: "json \<Rightarrow> bool" where
  "truthy JNull = False"
| "truthy (JBool b) = b"
| "truthy (JNum n) = (n \<noteq> ''0'')"
| "truthy (JStr s) = (s \<noteq> [])"
| "truthy (JArr xs) = True"
| "truthy (JObj kvs) = True"

definition or_default :: "json \<Rightarrow> json \<Rightarrow> json" where
  "or_default v dflt = (if truthy v then v else dflt)"

text \<open>The hardcoded seeds.\<close>

definition seed_events :: json where
  "seed_events = JArr [JObj [(''id'', JNum ''1''), (''name'', JStr ''Event 1''),
     (''description'', JStr ''First event'')]]"

definition seed_teams :: json where
  "seed_teams = JArr
     [JObj [(''id'', JNum ''1''), (''name'', JStr ''Team A''), (''description'', JStr ''Team Alpha'')],
      JObj [(''id'', JNum ''2''), (''name'', JStr ''Team B''), (''description'', JStr ''Team Beta'')]]"

definition seed_judges :: json where
  "seed_judges = JArr [JObj [(''id'', JNum ''1''), (''name'', JStr ''Judge 1''),
     (''description'', JStr ''First judge'')]]"

definition seed_categories :: json where
  "seed_categories = JArr
     [JObj [(''id'', JNum ''1''), (''name'', JStr ''Idea''), (''weight'', JNum ''1'')],
      JObj [(''id'', JNum ''2''), (''name'', JStr ''Presentation''), (''weight'', JNum ''1'')],
      JObj [(''id'', JNum ''3''), (''name'', JStr ''Execution''), (''weight'', JNum ''1'')]]"

definition seed_evaluations :: json where
  "seed_evaluations = JArr []"

text \<open>The five state variables of the provider, each created by \<^verbatim>\<open>useState([])\<close>.\<close>

record app_state =
  st_events :: json
  st_teams :: json
  st_judges :: json
  st_categories :: json
  st_evaluations :: json

definition initial_state :: app_state where
  "initial_state = \<lparr>st_events = JArr [], st_teams = JArr [], st_judges = JArr [],
     st_categories = JArr [], st_evaluations = JArr []\<rparr>"

text \<open>
  \<^verbatim>\<open>loadData\<close>: five statements in a row and no \<^verbatim>\<open>try\<close>. The result is the state after
  the setters that were called, and the exception that ended the function, if one did.
\<close>

definition loadData :: "local_storage \<Rightarrow> app_state \<Rightarrow> app_state \<times> js_error option" where
  "loadData ls st =
     (case parse_item (ls ''events'') of
        Inl e \<Rightarrow> (st, Some e)
      | Inr v1 \<Rightarrow>
     let st1 = st\<lparr>st_events := or_default v1 seed_events\<rparr> in
     (case parse_item (ls ''teams'') of
        Inl e \<Rightarrow> (st1, Some e)
      | Inr v2 \<Rightarrow>
     let st2 = st1\<lparr>st_teams := or_default v2 seed_teams\<rparr> in
     (case parse_item (ls ''judges'') of
        Inl e \<Rightarrow> (st2, Some e)
      | Inr v3 \<Rightarrow>
     let st3 = st2\<lparr>st_judges := or_default v3 seed_judges\<rparr> in
     (case parse_item (ls ''categories'') of
        Inl e \<Rightarrow> (st3, Some e)
      | Inr v4 \<Rightarrow>
     let st4 = st3\<lparr>st_categories := or_default v4 seed_categories\<rparr> in
     (case parse_item (ls ''evaluations'') of
        Inl e \<Rightarrow> (st4, Some e)
      | Inr v5 \<Rightarrow> (st4\<lparr>st_evaluations := or_default v5 seed_evaluations\<rparr>, None))))))"

definition storage_keys :: "string list" where
  "storage_keys = [''events'', ''teams'', ''judges'', ''categories'', ''evaluations'']"

fun is_unparsable :: "stored \<Rightarrow> bool" where
  "is_unparsable (Unparsable e) = True"
| "is_unparsable _ = False"

text \<open>An empty storage, and a storage whose key \<^verbatim>\<open>events\<close> holds a text that is not JSON.\<close>

definition empty_storage :: local_storage where
  "empty_storage = (\<lambda>k. Absent)"

definition broken_storage :: local_storage where
  "broken_storage = empty_storage
     (''events'' := Unparsable (Js_error ''SyntaxError'' ''Unexpected end of JSON input''))"

text \<open>A storage whose key \<^verbatim>\<open>teams\<close> holds a text that is not JSON, the other keys being
  absent.\<close>

definition broken_teams_storage :: local_storage where
  "broken_teams_storage = empty_storage
     (''teams'' := Unparsable (Js_error ''SyntaxError'' ''Unexpected end of JSON input''))"

section \<open>Sample data\<close>

definition mk_event :: "uuid \<Rightarrow> string \<Rightarrow> uuid option \<Rightarrow> event_row" where
  "mk_event i n owner = \<lparr>ev_id = i, ev_name = Some n, ev_description = None,
     ev_status = Some ''draft'', ev_start_date = None, ev_end_date = None,
     ev_created_by = owner, ev_created_at = None, ev_updated_at = None\<rparr>"

definition mk_category :: "uuid \<Rightarrow> uuid option \<Rightarrow> string \<Rightarrow> category_row" where
  "mk_category i e n = \<lparr>cat_id = i, cat_event_id = e, cat_name = Some n,
     cat_description = None, cat_weight = Some (Finite 1), cat_criteria = Some ''[]'',
     cat_created_at = None\<rparr>"

definition mk_team :: "uuid \<Rightarrow> uuid option \<Rightarrow> string \<Rightarrow> uuid option \<Rightarrow> team_row" where
  "mk_team i e n c = \<lparr>team_id = i, team_event_id = e, team_name = Some n,
     team_category_id = c, team_description = None, team_members = Some ''[]'',
     team_created_at = None\<rparr>"

definition mk_judge :: "uuid \<Rightarrow> uuid option \<Rightarrow> string \<Rightarrow> string \<Rightarrow> string \<Rightarrow> judge_row" where
  "mk_judge i e n m tok = \<lparr>judge_id = i, judge_event_id = e, judge_name = Some n,
     judge_email = Some m, judge_access_token = Some tok, judge_invitation_sent = Some False,
     judge_invitation_sent_at = None, judge_created_at = None\<rparr>"

definition mk_round :: "uuid \<Rightarrow> uuid option \<Rightarrow> int \<Rightarrow> string \<Rightarrow> string option \<Rightarrow> scoring_round_row" where
  "mk_round i e n nm st = \<lparr>sr_id = i, sr_event_id = e, sr_round_number = Some n,
     sr_name = Some nm, sr_status = st, sr_started_at = None, sr_completed_at = None,
     sr_created_at = None\<rparr>"

definition mk_score ::
  "uuid \<Rightarrow> uuid option \<Rightarrow> uuid option \<Rightarrow> uuid option \<Rightarrow> uuid option \<Rightarrow> string \<Rightarrow> numeric \<Rightarrow> score_row" where
  "mk_score i j t c r crit v = \<lparr>sc_id = i, sc_judge_id = j, sc_team_id = t, sc_category_id = c,
     sc_round_id = r, sc_criterion_name = Some crit, sc_score = Some v, sc_comments = None,
     sc_submitted_at = None\<rparr>"

text \<open>One event of organizer 1 with a category, a team, a judge and its first round.\<close>

definition demo_db :: db where
  "demo_db = \<lparr>profiles = [1],
     events = [mk_event 1 ''HackX'' (Some 1)],
     categories = [mk_category 1 (Some 1) ''Software''],
     teams = [mk_team 1 (Some 1) ''Team A'' (Some 1)],
     judges = [mk_judge 1 (Some 1) ''Ana'' ''a@x.com'' ''tok123''],
     judge_assignments = [],
     scoring_rounds = [mk_round 1 (Some 1) 1 ''Round 1'' (Some ''active'')],
     scores = [], normalized_scores = [], final_results = []\<rparr>"

text \<open>The sample event after the judge has scored the team on one criterion, and a
  table holding two rows whose key columns are NULL.\<close>

definition demo_scored :: db where
  "demo_scored = demo_db\<lparr>scores := [mk_score 1 (Some 1) (Some 1) (Some 1) (Some 1) ''pitch'' (Finite 7)]\<rparr>"

definition null_key_db :: db where
  "null_key_db = empty_db\<lparr>scores := [mk_score 1 None None None None ''pitch'' (Finite 7),
      mk_score 2 None None None None ''pitch'' (Finite 9)]\<rparr>"

text \<open>Two events; the first has a category, the second a team placed in that category.\<close>

definition two_events_db :: db where
  "two_events_db = \<lparr>profiles = [1],
     events = [mk_event 1 ''HackX'' (Some 1), mk_event 2 ''HackY'' (Some 1)],
     categories = [mk_category 1 (Some 1) ''Software''],
     teams = [], judges = [], judge_assignments = [], scoring_rounds = [],
     scores = [], normalized_scores = [], final_results = []\<rparr>"

definition cross_event_db :: db where
  "cross_event_db = two_events_db\<lparr>teams := [mk_team 1 (Some 2) ''Team B'' (Some 1)]\<rparr>"

section \<open>Score bounds\<close>

lemma sql_and_Some [simp]: "sql_and (Some a) (Some b) = Some (a \<and> b)"
  by (cases a; cases b) simp_all

lemma scores_score_check_value:
  "sc_score r = Some v \<Longrightarrow> scores_score_check r = Some (in_0_10 v)"
  by (cases v) (auto simp: scores_score_check_def in_0_10_def)

text \<open>
  C1. An insert of a score row whose value lies outside \<open>[0,10]\<close> is rejected, whatever the
  database holds and whatever the other columns are; with the criterion name present the
  rejection is the failure of the check constraint \<^verbatim>\<open>scores_score_check\<close>. For a value
  inside \<open>[0,10]\<close> the check constraint passes.
\<close>

theorem scores_bounds_enforced:
  "sc_score r = Some v \<Longrightarrow>
     (\<not> in_0_10 v \<longrightarrow> (\<exists>e. insert_score d r = Inl e) \<and>
        (sc_criterion_name r \<noteq> None \<longrightarrow> insert_score d r = Inl (Check_violation ''scores_score_check''))) \<and>
     (in_0_10 v \<longrightarrow> check_passes (scores_score_check r) \<and>
        insert_score d r \<noteq> Inl (Check_violation ''scores_score_check''))"
  by (auto simp: insert_score_def check_passes_def scores_score_check_value)

theorem scores_bounds_enforced_witness:
  "insert_score empty_db (mk_score 1 None None None None ''pitch'' (Finite 11))
     = Inl (Check_violation ''scores_score_check'') \<and>
   insert_score empty_db (mk_score 1 None None None None ''pitch'' NaN)
     = Inl (Check_violation ''scores_score_check'') \<and>
   check_passes (scores_score_check (mk_score 1 None None None None ''pitch'' (Finite 10))) \<and>
   insert_score empty_db (mk_score 1 None None None None ''pitch'' (Finite 10))
     = Inr (empty_db\<lparr>scores := [mk_score 1 None None None None ''pitch'' (Finite 10)]\<rparr>)"
  using scores_bounds_enforced [of "mk_score 1 None None None None ''pitch'' (Finite 11)" "Finite 11" empty_db]
    scores_bounds_enforced [of "mk_score 1 None None None None ''pitch'' NaN" NaN empty_db]
    scores_bounds_enforced [of "mk_score 1 None None None None ''pitch'' (Finite 10)" "Finite 10" empty_db]
  by (simp add: mk_score_def in_0_10_def insert_score_def empty_db_def)

section \<open>One score per judge, team, round and criterion\<close>

lemma is_true_sql_and: "is_true (sql_and a b) = (is_true a \<and> is_true b)"
  by (induction a b rule: sql_and.induct) (auto simp: is_true_def)

lemma is_true_sql_eq: "is_true (sql_eq x y) = (x \<noteq> None \<and> x = y)"
  by (cases x; cases y) (auto simp: is_true_def)

lemma scores_key_conflict_iff:
  "scores_key_conflict r x =
     (sc_judge_id r \<noteq> None \<and> sc_team_id r \<noteq> None \<and> sc_round_id r \<noteq> None \<and>
      sc_criterion_name r \<noteq> None \<and> score_key x = score_key r)"
  by (auto simp: scores_key_conflict_def is_true_sql_and is_true_sql_eq score_key_def)

lemma conflict_full: "scores_key_conflict r x = (full_key (score_key r) \<and> score_key x = score_key r)"
  by (auto simp: scores_key_conflict_iff full_key_def score_key_def split: option.splits)

lemma scores_inv_append:
  assumes "scores_inv rs" "sc_id r \<notin> set (map sc_id rs)" "\<not> list_ex (scores_key_conflict r) rs"
  shows "scores_inv (rs @ [r])"
proof -
  have "length (rows_with_key k (rs @ [r])) \<le> 1" if k: "full_key k" for k
  proof (cases "score_key r = k")
    case True
    with assms(3) k have "rows_with_key k rs = []"
      by (auto simp: rows_with_key_def list_ex_iff conflict_full filter_empty_conv)
    then show ?thesis by (simp add: rows_with_key_def)
  next
    case False
    from assms(1) k have "length (rows_with_key k rs) \<le> 1"
      unfolding scores_inv_def by blast
    with False show ?thesis by (simp add: rows_with_key_def)
  qed
  with assms(1,2) show ?thesis by (simp add: scores_inv_def)
qed

lemma scores_inv_filter:
  assumes "scores_inv rs"
  shows "scores_inv (filter p rs)"
proof -
  have le: "length (rows_with_key k (filter p rs)) \<le> length (rows_with_key k rs)" for k
    unfolding rows_with_key_def by (induction rs) auto
  have "length (rows_with_key k (filter p rs)) \<le> 1" if "full_key k" for k
  proof -
    from assms that have "length (rows_with_key k rs) \<le> 1"
      unfolding scores_inv_def by blast
    with le [of k] show ?thesis by linarith
  qed
  moreover from assms have "distinct (map sc_id (filter p rs))"
    by (simp add: scores_inv_def distinct_map_filter)
  ultimately show ?thesis unfolding scores_inv_def by blast
qed

lemma scores_inv_set_score:
  assumes "scores_inv rs"
  shows "scores_inv (map (\<lambda>x. if q x then x\<lparr>sc_score := v\<rparr> else x) rs)"
proof -
  let ?f = "\<lambda>x. if q x then x\<lparr>sc_score := v\<rparr> else x"
  have id: "map sc_id (map ?f rs) = map sc_id rs" by (induction rs) auto
  have "length (rows_with_key k (map ?f rs)) = length (rows_with_key k rs)" for k
    by (induction rs) (auto simp: rows_with_key_def score_key_def)
  moreover have "distinct (map sc_id (map ?f rs))"
    using assms unfolding id by (simp add: scores_inv_def)
  ultimately show ?thesis using assms unfolding scores_inv_def by simp
qed

lemma scores_inv_replace:
  assumes inv: "scores_inv rs"
    and pk: "\<not> list_ex (\<lambda>x. sc_id x \<noteq> i \<and> sc_id x = sc_id r') rs"
    and uq: "\<not> list_ex (\<lambda>x. sc_id x \<noteq> i \<and> scores_key_conflict r' x) rs"
    and i: "i \<in> set (map sc_id rs)"
  shows "scores_inv (map (\<lambda>x. if sc_id x = i then r' else x) rs)"
proof -
  let ?f = "\<lambda>x. if sc_id x = i then r' else x"
  from i obtain old where old: "old \<in> set rs" "sc_id old = i" by auto
  then obtain xs ys where split: "rs = xs @ old # ys" by (meson split_list)
  from inv have d: "distinct (map sc_id rs)" by (simp add: scores_inv_def)
  have nx: "\<forall>x \<in> set xs. sc_id x \<noteq> i"
    using d split old by (auto simp: image_iff)
  have ny: "\<forall>y \<in> set ys. sc_id y \<noteq> i"
    using d split old by (auto simp: image_iff)
  have mx: "map ?f xs = xs" using nx by (induction xs) auto
  have my: "map ?f ys = ys" using ny by (induction ys) auto
  have eq: "map ?f rs = xs @ r' # ys" using split old mx my by simp
  have idr: "sc_id r' \<notin> sc_id ` set xs \<union> sc_id ` set ys"
    using pk nx ny split by (auto simp: list_ex_iff)
  have dist: "distinct (map sc_id (xs @ r' # ys))"
    using d idr split by auto
  have "length (rows_with_key k (xs @ r' # ys)) \<le> 1" if k: "full_key k" for k
  proof (cases "score_key r' = k")
    case True
    have "rows_with_key k xs = []" "rows_with_key k ys = []"
      using uq nx ny split k True
      by (auto simp: list_ex_iff conflict_full rows_with_key_def filter_empty_conv)
    then show ?thesis by (simp add: rows_with_key_def)
  next
    case False
    have "length (rows_with_key k (xs @ r' # ys)) \<le> length (rows_with_key k rs)"
      using False split by (simp add: rows_with_key_def)
    also have "\<dots> \<le> 1" using inv k unfolding scores_inv_def by blast
    finally show ?thesis .
  qed
  with dist eq show ?thesis by (simp add: scores_inv_def)
qed

lemma reachable_scores_inv: "reachable d \<Longrightarrow> scores_inv (scores d)"
proof (induction rule: reachable.induct)
  case (reach_init d)
  then show ?case by (simp add: scores_inv_def rows_with_key_def)
next
  case (reach_insert d r d')
  then show ?case
    by (auto simp: insert_score_def split: if_splits intro!: scores_inv_append)
next
  case (reach_upsert d r d')
  then show ?case
    by (auto simp: upsert_score_def insert_score_def split: if_splits
        intro!: scores_inv_append scores_inv_set_score)
next
  case (reach_update d i r d')
  then show ?case
    by (auto simp: update_score_def split: if_splits intro!: scores_inv_replace)
next
  case (reach_delete d d' p)
  then show ?case by (simp add: scores_inv_filter)
qed


lemma upsert_score_conflict:
  assumes "sc_score r = Some v" "in_0_10 v" "full_key (score_key r)"
    and "rows_with_key (score_key r) (scores d) \<noteq> []"
  shows "upsert_score d r =
    Inr (d\<lparr>scores := map (\<lambda>x. if score_key x = score_key r then x\<lparr>sc_score := Some v\<rparr> else x) (scores d)\<rparr>)"
proof -
  have c: "scores_key_conflict r x = (score_key x = score_key r)" for x
    using assms(3) by (simp add: conflict_full)
  have "list_ex (scores_key_conflict r) (scores d)"
    using assms(4) by (auto simp: c list_ex_iff rows_with_key_def filter_empty_conv)
  moreover have "sc_criterion_name r \<noteq> None"
    using assms(3) by (auto simp: full_key_def score_key_def split: option.splits)
  moreover have "check_passes (scores_score_check r)"
    using assms(1,2) by (simp add: scores_score_check_value check_passes_def)
  ultimately show ?thesis
    using assms(1) by (simp add: upsert_score_def c)
qed

lemma insert_score_conflict:
  assumes "sc_score r = Some v" "in_0_10 v" "full_key (score_key r)"
    and "rows_with_key (score_key r) (scores d) \<noteq> []"
  shows "\<exists>n. insert_score d r = Inl (Unique_violation n)"
proof -
  have c: "scores_key_conflict r x = (score_key x = score_key r)" for x
    using assms(3) by (simp add: conflict_full)
  have "list_ex (scores_key_conflict r) (scores d)"
    using assms(4) by (auto simp: c list_ex_iff rows_with_key_def filter_empty_conv)
  moreover have "sc_criterion_name r \<noteq> None"
    using assms(3) by (auto simp: full_key_def score_key_def split: option.splits)
  moreover have "check_passes (scores_score_check r)"
    using assms(1,2) by (simp add: scores_score_check_value check_passes_def)
  ultimately show ?thesis
    using assms(1) by (simp add: insert_score_def)
qed

lemma rows_with_key_set_score:
  "rows_with_key k (map (\<lambda>x. if score_key x = k' then x\<lparr>sc_score := w\<rparr> else x) rs)
     = map (\<lambda>x. if score_key x = k' then x\<lparr>sc_score := w\<rparr> else x) (rows_with_key k rs)"
  by (induction rs) (auto simp: rows_with_key_def score_key_def)

text \<open>
  C2, as amended. In every reachable state, a key \<open>(judge_id, team_id, round_id,
  criterion_name)\<close> none of whose columns is NULL is carried by at most one row of scores.
  A second submission for such a key, with a value in \<open>[0,10]\<close>, is rejected by the unique
  constraint when it is a plain insert, and as an upsert it creates no row: the stored row
  keeps every column but the value, which becomes the submitted one.
\<close>

theorem scores_one_row_per_key:
  assumes "reachable d"
  shows "length (rows_with_key (Some j, Some t, Some ro, Some c) (scores d)) \<le> 1 \<and>
    (\<forall>r v. score_key r = (Some j, Some t, Some ro, Some c) \<and> sc_score r = Some v \<and> in_0_10 v \<and>
        rows_with_key (score_key r) (scores d) \<noteq> [] \<longrightarrow>
      (\<exists>n. insert_score d r = Inl (Unique_violation n)) \<and>
      (\<exists>d'. upsert_score d r = Inr d' \<and> reachable d' \<and>
         scores d' = map (\<lambda>x. if score_key x = score_key r then x\<lparr>sc_score := Some v\<rparr> else x) (scores d) \<and>
         length (rows_with_key (score_key r) (scores d')) = 1))"
proof -
  let ?k = "(Some j, Some t, Some ro, Some c)"
  have fk: "full_key ?k" by (simp add: full_key_def)
  have one: "length (rows_with_key ?k (scores d)) \<le> 1"
    using reachable_scores_inv [OF assms] fk unfolding scores_inv_def by blast
  have "(\<exists>n. insert_score d r = Inl (Unique_violation n)) \<and>
      (\<exists>d'. upsert_score d r = Inr d' \<and> reachable d' \<and>
         scores d' = map (\<lambda>x. if score_key x = score_key r then x\<lparr>sc_score := Some v\<rparr> else x) (scores d) \<and>
         length (rows_with_key (score_key r) (scores d')) = 1)"
    if h: "score_key r = ?k" "sc_score r = Some v" "in_0_10 v"
      "rows_with_key (score_key r) (scores d) \<noteq> []" for r v
  proof -
    let ?d' = "d\<lparr>scores := map (\<lambda>x. if score_key x = score_key r then x\<lparr>sc_score := Some v\<rparr> else x) (scores d)\<rparr>"
    from h fk have fr: "full_key (score_key r)" by simp
    have up: "upsert_score d r = Inr ?d'"
      using upsert_score_conflict [OF h(2) h(3) fr h(4)] .
    have re: "reachable ?d'" using assms up by (rule reach_upsert)
    have "length (rows_with_key (score_key r) (scores d)) = 1"
      using one h(1) h(4) by (cases "rows_with_key ?k (scores d)") auto
    then have "length (rows_with_key (score_key r) (scores ?d')) = 1"
      by (simp add: rows_with_key_set_score)
    with up re insert_score_conflict [OF h(2) h(3) fr h(4)] show ?thesis by auto
  qed
  with one show ?thesis by blast
qed

lemma demo_scored_reachable: "reachable demo_scored"
proof -
  have "reachable demo_db" by (rule reach_init) (simp add: demo_db_def)
  moreover have "insert_score demo_db (mk_score 1 (Some 1) (Some 1) (Some 1) (Some 1) ''pitch'' (Finite 7)) = Inr demo_scored"
    by (simp add: insert_score_def demo_db_def demo_scored_def mk_score_def check_passes_def
        scores_score_check_def mk_judge_def mk_team_def mk_category_def mk_round_def)
  ultimately show ?thesis by (rule reach_insert)
qed

theorem scores_one_row_per_key_witness:
  "reachable demo_scored \<and>
   length (rows_with_key (Some 1, Some 1, Some 1, Some ''pitch'') (scores demo_scored)) \<le> 1 \<and>
   (\<exists>n. insert_score demo_scored (mk_score 2 (Some 1) (Some 1) (Some 1) (Some 1) ''pitch'' (Finite 9))
      = Inl (Unique_violation n)) \<and>
   upsert_score demo_scored (mk_score 2 (Some 1) (Some 1) (Some 1) (Some 1) ''pitch'' (Finite 9))
     = Inr (demo_db\<lparr>scores := [mk_score 1 (Some 1) (Some 1) (Some 1) (Some 1) ''pitch'' (Finite 9)]\<rparr>)"
proof -
  let ?r = "mk_score 2 (Some 1) (Some 1) (Some 1) (Some 1) ''pitch'' (Finite 9)"
  have pre: "score_key ?r = (Some 1, Some 1, Some 1, Some ''pitch'') \<and> sc_score ?r = Some (Finite 9) \<and>
     in_0_10 (Finite 9) \<and> rows_with_key (score_key ?r) (scores demo_scored) \<noteq> []"
    by (simp add: score_key_def mk_score_def in_0_10_def rows_with_key_def demo_scored_def)
  from scores_one_row_per_key [OF demo_scored_reachable, of 1 1 1 "''pitch''"] pre
  obtain d' where le: "length (rows_with_key (Some 1, Some 1, Some 1, Some ''pitch'') (scores demo_scored)) \<le> 1"
    and ins: "\<exists>n. insert_score demo_scored ?r = Inl (Unique_violation n)"
    and up: "upsert_score demo_scored ?r = Inr d'"
    and sc: "scores d' = map (\<lambda>x. if score_key x = score_key ?r then x\<lparr>sc_score := Some (Finite 9)\<rparr> else x) (scores demo_scored)"
    by blast
  have "upsert_score demo_scored ?r
     = Inr (demo_db\<lparr>scores := [mk_score 1 (Some 1) (Some 1) (Some 1) (Some 1) ''pitch'' (Finite 9)]\<rparr>)"
    by (simp add: upsert_score_def demo_scored_def mk_score_def check_passes_def
        scores_score_check_def scores_key_conflict_def is_true_def)
  with le ins demo_scored_reachable show ?thesis by simp
qed

text \<open>
  The claim as stated, for every key, fails: \<^verbatim>\<open>judge_id\<close>, \<^verbatim>\<open>team_id\<close> and \<^verbatim>\<open>round_id\<close>
  are nullable and NULLs never conflict, so two submissions for the key
  \<open>(NULL, NULL, NULL, 'pitch')\<close> are both stored, by insert and by upsert alike.
\<close>

theorem scores_null_key_counterexample:
  "insert_score empty_db (mk_score 1 None None None None ''pitch'' (Finite 7))
     = Inr (empty_db\<lparr>scores := [mk_score 1 None None None None ''pitch'' (Finite 7)]\<rparr>) \<and>
   upsert_score (empty_db\<lparr>scores := [mk_score 1 None None None None ''pitch'' (Finite 7)]\<rparr>)
       (mk_score 2 None None None None ''pitch'' (Finite 9)) = Inr null_key_db \<and>
   insert_score (empty_db\<lparr>scores := [mk_score 1 None None None None ''pitch'' (Finite 7)]\<rparr>)
       (mk_score 2 None None None None ''pitch'' (Finite 9)) = Inr null_key_db \<and>
   reachable null_key_db \<and>
   length (rows_with_key (None, None, None, Some ''pitch'') (scores null_key_db)) = 2"
proof -
  let ?r1 = "mk_score 1 None None None None ''pitch'' (Finite 7)"
  let ?r2 = "mk_score 2 None None None None ''pitch'' (Finite 9)"
  let ?d1 = "empty_db\<lparr>scores := [?r1]\<rparr>"
  have i1: "insert_score empty_db ?r1 = Inr ?d1"
    by (simp add: insert_score_def empty_db_def mk_score_def check_passes_def scores_score_check_def)
  have i2: "insert_score ?d1 ?r2 = Inr null_key_db"
    by (simp add: insert_score_def empty_db_def mk_score_def check_passes_def scores_score_check_def
        scores_key_conflict_def is_true_def null_key_db_def)
  have u2: "upsert_score ?d1 ?r2 = Inr null_key_db"
    by (simp add: upsert_score_def insert_score_def empty_db_def mk_score_def check_passes_def
        scores_score_check_def scores_key_conflict_def is_true_def null_key_db_def)
  have "reachable empty_db" by (rule reach_init) (simp add: empty_db_def)
  then have "reachable ?d1" using i1 by (rule reach_insert)
  then have r: "reachable null_key_db" using i2 by (rule reach_insert)
  have "length (rows_with_key (None, None, None, Some ''pitch'') (scores null_key_db)) = 2"
    by (simp add: rows_with_key_def null_key_db_def score_key_def mk_score_def)
  with i1 i2 u2 r show ?thesis by simp
qed

section \<open>Who can write the scores table\<close>

lemma scores_using_ok: "using_ok scores_policies c a d r"
  by (cases "auth_role a") (simp_all add: using_ok_def scores_policies_def applies_def is_true_def)

lemma scores_check_ok: "check_ok scores_policies c a d r"
  by (cases "auth_role a") (simp_all add: check_ok_def scores_policies_def applies_def is_true_def)

text \<open>
  C3. The policy "Judges can manage their own scores" is \<^verbatim>\<open>FOR ALL TO anon, authenticated\<close>
  with the constant TRUE as both expressions. So for every caller, signed in or anonymous,
  every database and every row, row-level security permits insert, update and delete on
  scores: a statement under row-level security does exactly what the statement does
  without it, and only the table's constraints can reject it. No policy expression of
  scores mentions a judge's token.
\<close>

theorem scores_open_to_every_caller:
  "pol_using (hd scores_policies) = Some (\<lambda>a d r. Some True) \<and>
   pol_with_check (hd scores_policies) = Some (\<lambda>a d r. Some True) \<and>
   pol_for (hd scores_policies) = None \<and> Anon \<in> set (pol_to (hd scores_policies)) \<and>
   insert_permitted scores_policies a d new \<and>
   update_permitted scores_policies a d old new \<and>
   delete_permitted scores_policies a d old \<and>
   rls_insert_score a d new = (case insert_score d new of Inl e \<Rightarrow> Inl (Constraint e) | Inr d' \<Rightarrow> Inr d') \<and>
   rls_update_score a d i new = (case update_score d i new of Inl e \<Rightarrow> Inl (Constraint e) | Inr d' \<Rightarrow> Inr d') \<and>
   rls_delete_scores a d p = delete_scores d p"
proof -
  have "rls_update_score a d i new = (case update_score d i new of Inl e \<Rightarrow> Inl (Constraint e) | Inr d' \<Rightarrow> Inr d')"
  proof (cases "i \<in> set (map sc_id (scores d))")
    case True
    then have "list_ex (\<lambda>x. sc_id x = i) (scores d)" by (auto simp: list_ex_iff)
    then show ?thesis by (simp add: rls_update_score_def scores_using_ok scores_check_ok)
  next
    case False
    then have "\<not> list_ex (\<lambda>x. sc_id x = i) (scores d)" by (auto simp: list_ex_iff)
    moreover have "update_score d i new = Inr d" using False by (simp add: update_score_def)
    ultimately show ?thesis by (simp add: rls_update_score_def scores_using_ok)
  qed
  moreover have "pol_using (hd scores_policies) = Some (\<lambda>a d r. Some True)"
    "pol_with_check (hd scores_policies) = Some (\<lambda>a d r. Some True)"
    "pol_for (hd scores_policies) = None" "Anon \<in> set (pol_to (hd scores_policies))"
    by (simp_all add: scores_policies_def)
  ultimately show ?thesis
    by (simp add: insert_permitted_def update_permitted_def delete_permitted_def
        rls_insert_score_def rls_delete_scores_def scores_using_ok scores_check_ok)
qed

theorem scores_open_to_every_caller_witness:
  "rls_insert_score anonymous demo_db (mk_score 1 (Some 1) (Some 1) (Some 1) (Some 1) ''pitch'' (Finite 7))
     = Inr demo_scored \<and>
   rls_update_score anonymous demo_scored 1 (mk_score 1 (Some 1) (Some 1) (Some 1) (Some 1) ''pitch'' (Finite 0))
     = Inr (demo_db\<lparr>scores := [mk_score 1 (Some 1) (Some 1) (Some 1) (Some 1) ''pitch'' (Finite 0)]\<rparr>) \<and>
   rls_delete_scores anonymous demo_scored (\<lambda>x. True) = demo_db"
  using scores_open_to_every_caller [of anonymous demo_db "mk_score 1 (Some 1) (Some 1) (Some 1) (Some 1) ''pitch'' (Finite 7)"
      "mk_score 1 (Some 1) (Some 1) (Some 1) (Some 1) ''pitch'' (Finite 7)" 0 "\<lambda>x. True"]
    scores_open_to_every_caller [of anonymous demo_scored "mk_score 1 (Some 1) (Some 1) (Some 1) (Some 1) ''pitch'' (Finite 0)"
      "mk_score 1 (Some 1) (Some 1) (Some 1) (Some 1) ''pitch'' (Finite 7)" 1 "\<lambda>x. True"]
  by (simp add: insert_score_def update_score_def delete_scores_def demo_db_def demo_scored_def mk_score_def check_passes_def
        scores_score_check_def mk_judge_def mk_team_def mk_category_def mk_round_def)

section \<open>Who can read the judges table\<close>

lemma judges_select_visible: "select_visible judges_policies a d r"
  by (cases "auth_role a")
    (simp_all add: select_visible_def using_ok_def judges_policies_def applies_def is_true_def)

text \<open>
  C10. The policy "Judges can view their own profile by token" is \<^verbatim>\<open>FOR SELECT TO anon,
  authenticated USING (true)\<close>. So in every database every judge row is visible to every
  caller; a select by the anonymous caller, who presents no token, returns every row of
  judges and with it every access token.
\<close>

theorem judges_readable_by_anyone:
  "pol_using (judges_policies ! 1) = Some (\<lambda>a d r. Some True) \<and>
   pol_for (judges_policies ! 1) = Some Select \<and> Anon \<in> set (pol_to (judges_policies ! 1)) \<and>
   select_visible judges_policies a d r \<and>
   rls_select_judges a d = judges d \<and>
   map judge_access_token (rls_select_judges anonymous d) = map judge_access_token (judges d)"
  by (simp add: rls_select_judges_def judges_select_visible) (simp add: judges_policies_def)

theorem judges_readable_by_anyone_witness:
  "rls_select_judges anonymous demo_db = [mk_judge 1 (Some 1) ''Ana'' ''a@x.com'' ''tok123''] \<and>
   map judge_access_token (rls_select_judges anonymous demo_db) = [Some ''tok123'']"
  using judges_readable_by_anyone [of anonymous demo_db "mk_judge 1 (Some 1) ''Ana'' ''a@x.com'' ''tok123''"]
  by (simp add: demo_db_def mk_judge_def)

section \<open>The status of a scoring round\<close>

lemma rounds_key_conflict_status [simp]:
  "rounds_key_conflict (r\<lparr>sr_status := v\<rparr>) = rounds_key_conflict r"
  by (rule ext) (simp add: rounds_key_conflict_def)

lemma insert_scoring_round_isl:
  "isl (insert_scoring_round d r st) = isl (insert_scoring_round d r st')"
  by (simp add: insert_scoring_round_def Let_def)

lemma update_scoring_round_isl:
  "isl (update_scoring_round d i r') = isl (update_scoring_round d i (r'\<lparr>sr_status := v\<rparr>))"
  by (simp add: update_scoring_round_def rounds_key_conflict_def)

lemma insert_scoring_round_rows:
  "insert_scoring_round d r st = Inr d' \<Longrightarrow>
     scoring_rounds d' = scoring_rounds d @ [r\<lparr>sr_status := with_default (Some ''pending'') st\<rparr>]"
  by (auto simp: insert_scoring_round_def Let_def split: if_splits)

lemma update_scoring_round_rows:
  "update_scoring_round d i r' = Inr d' \<Longrightarrow> x \<in> set (scoring_rounds d') \<Longrightarrow> sr_id x = i \<Longrightarrow>
     sr_status x = sr_status r'"
  by (auto simp: update_scoring_round_def split: if_splits)

text \<open>
  C6, as amended. The status of a scoring round is unconstrained text: an insert that
  omits the column stores the default \<open>'pending'\<close>, an insert or an update that gives a
  status stores exactly what it gives, a string of any content or NULL, and whether
  the statement is accepted never depends on the status.
\<close>

theorem rounds_status_unconstrained:
  "(insert_scoring_round d r Omitted = Inr d' \<longrightarrow>
      sr_status (last (scoring_rounds d')) = Some ''pending'') \<and>
   (insert_scoring_round d r (Given v) = Inr d' \<longrightarrow> sr_status (last (scoring_rounds d')) = v) \<and>
   isl (insert_scoring_round d r st) = isl (insert_scoring_round d r st') \<and>
   (update_scoring_round d i r' = Inr d' \<longrightarrow>
      (\<forall>x \<in> set (scoring_rounds d'). sr_id x = i \<longrightarrow> sr_status x = sr_status r')) \<and>
   isl (update_scoring_round d i r') = isl (update_scoring_round d i (r'\<lparr>sr_status := v\<rparr>))"
  using insert_scoring_round_isl [of d r st st'] update_scoring_round_isl [of d i r' v]
    insert_scoring_round_rows [of d r Omitted d'] insert_scoring_round_rows [of d r "Given v" d']
    update_scoring_round_rows [of d i r' d']
  by auto

theorem rounds_status_unconstrained_witness:
  "insert_scoring_round demo_db (mk_round 2 (Some 1) 2 ''Round 2'' None) Omitted
     = Inr (demo_db\<lparr>scoring_rounds := scoring_rounds demo_db @ [mk_round 2 (Some 1) 2 ''Round 2'' (Some ''pending'')]\<rparr>) \<and>
   sr_status (last (scoring_rounds (demo_db\<lparr>scoring_rounds := scoring_rounds demo_db @ [mk_round 2 (Some 1) 2 ''Round 2'' (Some ''pending'')]\<rparr>))) = Some ''pending'' \<and>
   update_scoring_round demo_db 1 (mk_round 1 (Some 1) 1 ''Round 1'' (Some ''completed''))
     = Inr (demo_db\<lparr>scoring_rounds := [mk_round 1 (Some 1) 1 ''Round 1'' (Some ''completed'')]\<rparr>)"
proof -
  let ?d' = "demo_db\<lparr>scoring_rounds := scoring_rounds demo_db @ [mk_round 2 (Some 1) 2 ''Round 2'' (Some ''pending'')]\<rparr>"
  have i: "insert_scoring_round demo_db (mk_round 2 (Some 1) 2 ''Round 2'' None) Omitted = Inr ?d'"
    by (simp add: insert_scoring_round_def demo_db_def mk_round_def mk_event_def
        rounds_key_conflict_def is_true_def)
  have u: "update_scoring_round demo_db 1 (mk_round 1 (Some 1) 1 ''Round 1'' (Some ''completed''))
     = Inr (demo_db\<lparr>scoring_rounds := [mk_round 1 (Some 1) 1 ''Round 1'' (Some ''completed'')]\<rparr>)"
    by (simp add: update_scoring_round_def demo_db_def mk_round_def mk_event_def
        rounds_key_conflict_def is_true_def)
  from rounds_status_unconstrained [of demo_db "mk_round 2 (Some 1) 2 ''Round 2'' None" ?d'] i
  have "sr_status (last (scoring_rounds ?d')) = Some ''pending''" by blast
  with i u show ?thesis by simp
qed

text \<open>
  The claim as stated fails: an insert stores the status \<open>'archived'\<close> and an update
  stores NULL, neither of which is one of the three values of the lifecycle.
\<close>

theorem rounds_status_counterexample:
  "insert_scoring_round demo_db (mk_round 2 (Some 1) 2 ''Round 2'' None) (Given (Some ''archived''))
     = Inr (demo_db\<lparr>scoring_rounds := scoring_rounds demo_db @ [mk_round 2 (Some 1) 2 ''Round 2'' (Some ''archived'')]\<rparr>) \<and>
   \<not> lifecycle_status (Some ''archived'') \<and>
   update_scoring_round demo_db 1 (mk_round 1 (Some 1) 1 ''Round 1'' None)
     = Inr (demo_db\<lparr>scoring_rounds := [mk_round 1 (Some 1) 1 ''Round 1'' None]\<rparr>) \<and>
   \<not> lifecycle_status None"
  by (simp add: insert_scoring_round_def update_scoring_round_def demo_db_def mk_round_def mk_event_def
        rounds_key_conflict_def is_true_def lifecycle_status_def)

section \<open>The category of a team\<close>

lemma team_category_exists_teams [simp]:
  "team_category_exists (d\<lparr>teams := ts\<rparr>) = team_category_exists d"
  by (rule ext) (simp add: team_category_exists_def)

text \<open>
  C5, as amended. The category of a team is optional, and when it is set it is the
  primary key of an existing category: in a database where every team's category
  exists, an accepted insert or update of a team leaves it so, and an insert that is
  accepted with a category is accepted with NULL in its place. Nothing compares the
  event of the category with the event of the team.
\<close>

theorem teams_category_reference:
  assumes "list_all (team_category_exists d) (teams d)"
  shows "(insert_team d r = Inr d' \<longrightarrow>
            teams d' = teams d @ [r] \<and> list_all (team_category_exists d') (teams d')) \<and>
         (update_team d i r' = Inr d' \<longrightarrow> list_all (team_category_exists d') (teams d')) \<and>
         (insert_team d r = Inr d' \<longrightarrow>
            insert_team d (r\<lparr>team_category_id := None\<rparr>)
              = Inr (d\<lparr>teams := teams d @ [r\<lparr>team_category_id := None\<rparr>]\<rparr>))"
proof -
  have a: "insert_team d r = Inr d' \<longrightarrow>
            teams d' = teams d @ [r] \<and> list_all (team_category_exists d') (teams d')"
    using assms by (auto simp: insert_team_def team_category_exists_def split: if_splits)
  have b: "update_team d i r' = Inr d' \<longrightarrow> list_all (team_category_exists d') (teams d')"
    using assms
    by (auto simp: update_team_def list_all_iff split: if_splits)
      (simp add: team_category_exists_def)
  have c: "insert_team d r = Inr d' \<longrightarrow>
            insert_team d (r\<lparr>team_category_id := None\<rparr>)
              = Inr (d\<lparr>teams := teams d @ [r\<lparr>team_category_id := None\<rparr>]\<rparr>)"
    by (auto simp: insert_team_def split: if_splits)
  from a b c show ?thesis by blast
qed

theorem teams_category_reference_witness:
  "list_all (team_category_exists two_events_db) (teams two_events_db) \<and>
   insert_team two_events_db (mk_team 1 (Some 1) ''Team A'' (Some 1))
     = Inr (two_events_db\<lparr>teams := [mk_team 1 (Some 1) ''Team A'' (Some 1)]\<rparr>) \<and>
   list_all (team_category_exists (two_events_db\<lparr>teams := [mk_team 1 (Some 1) ''Team A'' (Some 1)]\<rparr>))
     (teams (two_events_db\<lparr>teams := [mk_team 1 (Some 1) ''Team A'' (Some 1)]\<rparr>)) \<and>
   insert_team two_events_db (mk_team 1 (Some 1) ''Team A'' None)
     = Inr (two_events_db\<lparr>teams := [mk_team 1 (Some 1) ''Team A'' None]\<rparr>)"
proof -
  let ?r = "mk_team 1 (Some 1) ''Team A'' (Some 1)"
  let ?d' = "two_events_db\<lparr>teams := [?r]\<rparr>"
  have h: "list_all (team_category_exists two_events_db) (teams two_events_db)"
    by (simp add: two_events_db_def)
  have i: "insert_team two_events_db ?r = Inr ?d'"
    by (simp add: insert_team_def two_events_db_def mk_team_def mk_event_def mk_category_def)
  have n: "?r\<lparr>team_category_id := None\<rparr> = mk_team 1 (Some 1) ''Team A'' None"
    by (simp add: mk_team_def)
  have t: "teams two_events_db = []" by (simp add: two_events_db_def)
  from teams_category_reference [OF h, of ?r ?d'] i
  have "list_all (team_category_exists ?d') (teams ?d')"
    and "insert_team two_events_db (?r\<lparr>team_category_id := None\<rparr>)
              = Inr (two_events_db\<lparr>teams := teams two_events_db @ [?r\<lparr>team_category_id := None\<rparr>]\<rparr>)"
    by blast+
  with h i show ?thesis unfolding n t by simp
qed

text \<open>
  The claim as stated fails: a team of the second event is accepted with a category of
  the first, and the insert takes a database where every team's category belongs to the
  team's event to one where it does not.
\<close>

theorem teams_cross_event_counterexample:
  "insert_team two_events_db (mk_team 1 (Some 2) ''Team B'' (Some 1)) = Inr cross_event_db \<and>
   list_all (team_category_same_event two_events_db) (teams two_events_db) \<and>
   \<not> list_all (team_category_same_event cross_event_db) (teams cross_event_db)"
  by (simp add: insert_team_def two_events_db_def cross_event_db_def mk_team_def mk_event_def
      mk_category_def team_category_same_event_def)

section \<open>What deleting an event removes\<close>

lemma team_descends_own_event:
  assumes "no_foreign_team d eid" "t \<in> set (teams d)"
  shows "team_descends d eid t = (team_event_id t = Some eid)"
  using assms by (auto simp: no_foreign_team_def team_descends_def list_all_iff)

lemma descendant_team_ids_own_event:
  assumes "no_foreign_team d eid"
  shows "descendant_team_ids d eid = event_team_ids d eid"
proof -
  have "filter (team_descends d eid) (teams d) = filter (\<lambda>t. team_event_id t = Some eid) (teams d)"
    by (rule filter_cong) (simp_all add: team_descends_own_event [OF assms])
  then show ?thesis by (simp add: descendant_team_ids_def event_team_ids_def)
qed

lemma no_foreign_team_guard:
  "list_ex (\<lambda>t. team_event_id t \<noteq> Some eid \<and> refers_to (event_category_ids d eid) (team_category_id t)) (teams d)
     = (\<not> no_foreign_team d eid)"
  by (auto simp: no_foreign_team_def list_ex_iff list_all_iff)

lemma delete_event_blocked:
  assumes "eid \<in> set (map ev_id (events d))" "\<not> no_foreign_team d eid"
  shows "delete_event d eid = Inl (Foreign_key_violation ''teams_category_id_fkey'')"
  using assms by (simp add: delete_event_def Let_def no_foreign_team_guard)

lemma delete_event_done:
  assumes "eid \<in> set (map ev_id (events d))" "no_foreign_team d eid"
  shows "\<exists>d'. delete_event d eid = Inr d' \<and>
     profiles d' = profiles d \<and>
     events d' = filter (\<lambda>e. ev_id e \<noteq> eid) (events d) \<and>
     categories d' = filter (\<lambda>c. cat_event_id c \<noteq> Some eid) (categories d) \<and>
     teams d' = filter (\<lambda>t. \<not> team_descends d eid t) (teams d) \<and>
     judges d' = filter (\<lambda>j. judge_event_id j \<noteq> Some eid) (judges d) \<and>
     scoring_rounds d' = filter (\<lambda>r. sr_event_id r \<noteq> Some eid) (scoring_rounds d) \<and>
     judge_assignments d' = filter (\<lambda>a. \<not> assignment_descends d eid a) (judge_assignments d) \<and>
     scores d' = filter (\<lambda>s. \<not> score_descends d eid s) (scores d) \<and>
     normalized_scores d' = filter (\<lambda>n. \<not> normalized_score_descends d eid n) (normalized_scores d) \<and>
     final_results d' = filter (\<lambda>f. \<not> final_result_descends d eid f) (final_results d)"
proof -
  note dt = descendant_team_ids_own_event [OF assms(2)]
  have t: "filter (\<lambda>t. \<not> team_descends d eid t) (teams d)
      = filter (\<lambda>t. team_event_id t \<noteq> Some eid) (teams d)"
    by (rule filter_cong) (simp_all add: team_descends_own_event [OF assms(2)])
  show ?thesis
    using assms
    by (simp add: delete_event_def Let_def no_foreign_team_guard t dt
        assignment_descends_def score_descends_def normalized_score_descends_def
        final_result_descends_def)
qed

text \<open>
  C4, as amended. Deleting an existing event succeeds exactly when no team of another
  event (or of none) is placed in a category of the event. It then removes the event
  and every row that descends from it along the foreign keys: its categories, teams,
  judges and scoring rounds, and the assignments, scores, normalized scores and final
  results that reference one of them or the event; every other row of every table,
  the other events and the profiles included, stays. When such a
  team exists, the foreign key \<^verbatim>\<open>teams.category_id\<close>, which has no cascade action, rejects
  the statement.
\<close>

theorem delete_event_cascades:
  assumes "eid \<in> set (map ev_id (events d))"
  shows "(no_foreign_team d eid \<longrightarrow>
     (\<exists>d'. delete_event d eid = Inr d' \<and>
       eid \<notin> set (map ev_id (events d')) \<and>
       profiles d' = profiles d \<and>
       events d' = filter (\<lambda>e. ev_id e \<noteq> eid) (events d) \<and>
       categories d' = filter (\<lambda>c. cat_event_id c \<noteq> Some eid) (categories d) \<and>
       teams d' = filter (\<lambda>t. \<not> team_descends d eid t) (teams d) \<and>
       judges d' = filter (\<lambda>j. judge_event_id j \<noteq> Some eid) (judges d) \<and>
       scoring_rounds d' = filter (\<lambda>r. sr_event_id r \<noteq> Some eid) (scoring_rounds d) \<and>
       judge_assignments d' = filter (\<lambda>a. \<not> assignment_descends d eid a) (judge_assignments d) \<and>
       scores d' = filter (\<lambda>s. \<not> score_descends d eid s) (scores d) \<and>
       normalized_scores d' = filter (\<lambda>n. \<not> normalized_score_descends d eid n) (normalized_scores d) \<and>
       final_results d' = filter (\<lambda>f. \<not> final_result_descends d eid f) (final_results d))) \<and>
    (\<not> no_foreign_team d eid \<longrightarrow>
       delete_event d eid = Inl (Foreign_key_violation ''teams_category_id_fkey''))"
proof (cases "no_foreign_team d eid")
  case True
  from delete_event_done [OF assms True] obtain d' where d': "delete_event d eid = Inr d'"
    "profiles d' = profiles d"
    "events d' = filter (\<lambda>e. ev_id e \<noteq> eid) (events d)"
    "categories d' = filter (\<lambda>c. cat_event_id c \<noteq> Some eid) (categories d)"
    "teams d' = filter (\<lambda>t. \<not> team_descends d eid t) (teams d)"
    "judges d' = filter (\<lambda>j. judge_event_id j \<noteq> Some eid) (judges d)"
    "scoring_rounds d' = filter (\<lambda>r. sr_event_id r \<noteq> Some eid) (scoring_rounds d)"
    "judge_assignments d' = filter (\<lambda>a. \<not> assignment_descends d eid a) (judge_assignments d)"
    "scores d' = filter (\<lambda>s. \<not> score_descends d eid s) (scores d)"
    "normalized_scores d' = filter (\<lambda>n. \<not> normalized_score_descends d eid n) (normalized_scores d)"
    "final_results d' = filter (\<lambda>f. \<not> final_result_descends d eid f) (final_results d)"
    by blast
  have "eid \<notin> set (map ev_id (events d'))" unfolding d'(3) by auto
  with d' True show ?thesis by blast
next
  case False
  with delete_event_blocked [OF assms] show ?thesis by simp
qed

theorem delete_event_cascades_witness:
  "1 \<in> set (map ev_id (events demo_scored)) \<and> no_foreign_team demo_scored 1 \<and>
   delete_event demo_scored 1 = Inr (empty_db\<lparr>profiles := [1]\<rparr>)"
proof -
  have e: "1 \<in> set (map ev_id (events demo_scored))"
    by (simp add: demo_scored_def demo_db_def mk_event_def)
  have n: "no_foreign_team demo_scored 1"
    by (simp add: no_foreign_team_def demo_scored_def demo_db_def mk_team_def)
  from delete_event_cascades [OF e] n
  obtain d' where d': "delete_event demo_scored 1 = Inr d'"
    "profiles d' = profiles demo_scored"
    "events d' = filter (\<lambda>e. ev_id e \<noteq> 1) (events demo_scored)"
    by blast
  have "delete_event demo_scored 1 = Inr (empty_db\<lparr>profiles := [1]\<rparr>)"
    by (simp add: delete_event_def Let_def demo_scored_def demo_db_def empty_db_def
        event_category_ids_def event_team_ids_def event_judge_ids_def event_round_ids_def
        mk_event_def mk_category_def mk_team_def mk_judge_def mk_round_def mk_score_def)
  with e n d' show ?thesis by simp
qed

text \<open>
  The claim as stated, for every database, fails: the database with a team of the second
  event in a category of the first is reached by an accepted insert, and there the
  delete of the first event is rejected and removes nothing.
\<close>

theorem delete_event_counterexample:
  "insert_team two_events_db (mk_team 1 (Some 2) ''Team B'' (Some 1)) = Inr cross_event_db \<and>
   1 \<in> set (map ev_id (events cross_event_db)) \<and>
   delete_event cross_event_db 1 = Inl (Foreign_key_violation ''teams_category_id_fkey'')"
  by (simp add: insert_team_def delete_event_def Let_def two_events_db_def cross_event_db_def
      event_category_ids_def mk_team_def mk_event_def mk_category_def)

section \<open>The preview of the invitation\<close>

lemma template_strings:
  "template en p (map (\<lambda>(s, q). (Some (JStr s), q)) xs) = Inr (p @ concat (map (\<lambda>(s, q). s @ q) xs))"
  by (induction xs arbitrary: p) (auto split: prod.splits)

lemma console_logs_strings:
  "console_logs en (map (\<lambda>(p, s). (p, Some (JStr s))) xs) = (map (\<lambda>(p, s). Log (p @ s)) xs, None)"
  by (induction xs) (auto split: prod.splits)

lemma emailContent_strings:
  assumes "eventName i = Some (JStr ev)" "judgeName i = Some (JStr jn)"
    "dashboardUrl i = Some (JStr url)" "accessToken i = Some (JStr tok)"
  shows "emailContent en i = Inr (email_part_0 @ ev @ email_part_1 @ jn @ email_part_2 @ ev @
     email_part_3 @ url @ email_part_4 @ tok @ email_part_5 @ tok @ email_part_6)"
  using template_strings [of en email_part_0
      "[(ev, email_part_1), (jn, email_part_2), (ev, email_part_3), (url, email_part_4),
        (tok, email_part_5), (tok, email_part_6)]"]
  by (simp add: emailContent_def assms)

text \<open>
  C7. A request of any method but \<^verbatim>\<open>OPTIONS\<close> whose body is a JSON object with the five
  fields as strings is answered with status 200 and the body \<open>{success: true, message,
  preview}\<close>; the preview is the template with the fields filled in, and contains the
  access token and the event name. The request of the example is the witness.
\<close>

theorem invitation_preview:
  assumes "req_method req \<noteq> ''OPTIONS''"
    and "req_json req = Inr (JObj kvs)"
    and "map_of kvs ''judgeName'' = Some (JStr jn)"
    and "map_of kvs ''judgeEmail'' = Some (JStr em)"
    and "map_of kvs ''eventName'' = Some (JStr ev)"
    and "map_of kvs ''accessToken'' = Some (JStr tok)"
    and "map_of kvs ''dashboardUrl'' = Some (JStr url)"
  shows "\<exists>preview.
      handler en req =
        (\<lparr>status = 200,
          headers = corsHeaders @ [(''Content-Type'', ''application/json'')],
          body = Some (JObj [(''success'', JBool True),
            (''message'', JStr ''Invitation email sent successfully''),
            (''preview'', JStr preview)])\<rparr>,
         [Log (''Email would be sent to: '' @ em), Log (''Event: '' @ ev),
          Log (''Access Token: '' @ tok), Log (''Dashboard URL: '' @ url)]) \<and>
      preview = email_part_0 @ ev @ email_part_1 @ jn @ email_part_2 @ ev @
        email_part_3 @ url @ email_part_4 @ tok @ email_part_5 @ tok @ email_part_6 \<and>
      sublist tok preview \<and> sublist ev preview"
proof -
  let ?i = "\<lparr>judgeName = Some (JStr jn), judgeEmail = Some (JStr em), eventName = Some (JStr ev),
     accessToken = Some (JStr tok), dashboardUrl = Some (JStr url)\<rparr>"
  let ?preview = "email_part_0 @ ev @ email_part_1 @ jn @ email_part_2 @ ev @
        email_part_3 @ url @ email_part_4 @ tok @ email_part_5 @ tok @ email_part_6"
  have d: "destructure en (JObj kvs) = Inr ?i"
    using assms(3-7) by (simp add: destructure_def)
  have c: "emailContent en ?i = Inr ?preview"
    by (rule emailContent_strings) simp_all
  have l: "console_logs en
       [(''Email would be sent to: '', judgeEmail ?i), (''Event: '', eventName ?i),
        (''Access Token: '', accessToken ?i), (''Dashboard URL: '', dashboardUrl ?i)]
     = ([Log (''Email would be sent to: '' @ em), Log (''Event: '' @ ev),
          Log (''Access Token: '' @ tok), Log (''Dashboard URL: '' @ url)], None)"
    using console_logs_strings [of en "[(''Email would be sent to: '', em), (''Event: '', ev),
        (''Access Token: '', tok), (''Dashboard URL: '', url)]"]
    by simp
  have t: "try_block en req = Inr (\<lparr>status = 200,
          headers = corsHeaders @ [(''Content-Type'', ''application/json'')],
          body = Some (JObj [(''success'', JBool True),
            (''message'', JStr ''Invitation email sent successfully''),
            (''preview'', JStr ?preview)])\<rparr>,
         [Log (''Email would be sent to: '' @ em), Log (''Event: '' @ ev),
          Log (''Access Token: '' @ tok), Log (''Dashboard URL: '' @ url)])"
    unfolding try_block_def assms(2) sum.case d c l by simp
  have s1: "sublist tok ?preview"
    unfolding sublist_def
    by (rule exI [of _ "email_part_0 @ ev @ email_part_1 @ jn @ email_part_2 @ ev @ email_part_3 @ url @ email_part_4"],
        rule exI [of _ "email_part_5 @ tok @ email_part_6"]) simp
  have s2: "sublist ev ?preview"
    unfolding sublist_def
    by (rule exI [of _ "email_part_0"],
        rule exI [of _ "email_part_1 @ jn @ email_part_2 @ ev @ email_part_3 @ url @ email_part_4 @ tok @ email_part_5 @ tok @ email_part_6"]) simp
  from assms(1) t s1 s2 show ?thesis by (simp add: handler_def)
qed

theorem invitation_preview_witness:
  "handler v8 ana_request =
     (\<lparr>status = 200,
       headers = corsHeaders @ [(''Content-Type'', ''application/json'')],
       body = Some (JObj [(''success'', JBool True),
         (''message'', JStr ''Invitation email sent successfully''),
         (''preview'', JStr (email_part_0 @ ''HackX'' @ email_part_1 @ ''Ana'' @ email_part_2 @
            ''HackX'' @ email_part_3 @ ''https://d.example/judge'' @ email_part_4 @ ''tok123'' @
            email_part_5 @ ''tok123'' @ email_part_6))])\<rparr>,
      [Log ''Email would be sent to: a@x.com'', Log ''Event: HackX'',
       Log ''Access Token: tok123'', Log ''Dashboard URL: https://d.example/judge'']) \<and>
   sublist ''tok123'' (email_part_0 @ ''HackX'' @ email_part_1 @ ''Ana'' @ email_part_2 @
            ''HackX'' @ email_part_3 @ ''https://d.example/judge'' @ email_part_4 @ ''tok123'' @
            email_part_5 @ ''tok123'' @ email_part_6) \<and>
   sublist ''HackX'' (email_part_0 @ ''HackX'' @ email_part_1 @ ''Ana'' @ email_part_2 @
            ''HackX'' @ email_part_3 @ ''https://d.example/judge'' @ email_part_4 @ ''tok123'' @
            email_part_5 @ ''tok123'' @ email_part_6)"
proof -
  let ?kvs = "[(''judgeName'', JStr ''Ana''), (''judgeEmail'', JStr ''a@x.com''),
       (''eventName'', JStr ''HackX''), (''accessToken'', JStr ''tok123''),
       (''dashboardUrl'', JStr ''https://d.example/judge'')]"
  have m: "req_method ana_request \<noteq> ''OPTIONS''" by (simp add: ana_request_def)
  have j: "req_json ana_request = Inr (JObj ?kvs)" by (simp add: ana_request_def)
  have f: "map_of ?kvs ''judgeName'' = Some (JStr ''Ana'')"
    "map_of ?kvs ''judgeEmail'' = Some (JStr ''a@x.com'')"
    "map_of ?kvs ''eventName'' = Some (JStr ''HackX'')"
    "map_of ?kvs ''accessToken'' = Some (JStr ''tok123'')"
    "map_of ?kvs ''dashboardUrl'' = Some (JStr ''https://d.example/judge'')"
    by simp_all
  from invitation_preview [OF m j f, of v8] show ?thesis by auto
qed

section \<open>Exceptions of the invitation function\<close>

lemma handler_raised:
  assumes "req_method req \<noteq> ''OPTIONS''" "try_block en req = Inl (ls, e)"
  shows "handler en req = (error_response e, ls @ [Log_error ''Error sending invitation:'' e])"
  using assms by (simp add: handler_def)

lemma try_block_status:
  "try_block en req = Inr (r, ls) \<Longrightarrow> status r = 200"
  by (auto simp: try_block_def split: sum.splits prod.splits option.splits)

text \<open>
  C8. For every request of a method other than \<^verbatim>\<open>OPTIONS\<close>, an exception raised in the
  \<^verbatim>\<open>try\<close> block, by \<^verbatim>\<open>req.json()\<close>, by the destructuring or by a conversion to string in a
  template, is answered with status 500 and the body \<open>{success: false, error}\<close>, where
  \<open>error\<close> is the message of the exception, or the fixed text when the message is empty.
  The handler answers every request: with status 500 when the block raised, with status
  200 when it did not.
\<close>

theorem invitation_errors_caught:
  assumes "req_method req \<noteq> ''OPTIONS''"
  shows "(\<forall>ls e. try_block en req = Inl (ls, e) \<longrightarrow>
            handler en req = (error_response e, ls @ [Log_error ''Error sending invitation:'' e]) \<and>
            status (fst (handler en req)) = 500 \<and>
            body (fst (handler en req)) = Some (JObj [(''success'', JBool False),
              (''error'', JStr (if err_message e = [] then ''Failed to send invitation''
                                else err_message e))])) \<and>
         (\<forall>e. req_json req = Inl e \<longrightarrow> fst (handler en req) = error_response e) \<and>
         (req_json req = Inr JNull \<longrightarrow>
            fst (handler en req) = error_response (Js_error ''TypeError'' (destructure_message en))) \<and>
         (\<forall>v i e. req_json req = Inr v \<and> destructure en v = Inr i \<and> emailContent en i = Inl e \<longrightarrow>
            fst (handler en req) = error_response e) \<and>
         (status (fst (handler en req)) = 500) = isl (try_block en req) \<and>
         (status (fst (handler en req)) = 200) = (\<not> isl (try_block en req))"
proof -
  have a: "handler en req = (error_response e, ls @ [Log_error ''Error sending invitation:'' e]) \<and>
            status (fst (handler en req)) = 500 \<and>
            body (fst (handler en req)) = Some (JObj [(''success'', JBool False),
              (''error'', JStr (if err_message e = [] then ''Failed to send invitation''
                                else err_message e))])"
    if "try_block en req = Inl (ls, e)" for ls e
    using handler_raised [OF assms that] by (simp add: error_response_def)
  have b: "fst (handler en req) = error_response e" if "req_json req = Inl e" for e
  proof -
    from that have "try_block en req = Inl ([], e)" by (simp add: try_block_def)
    from handler_raised [OF assms this] show ?thesis by simp
  qed
  have c: "fst (handler en req) = error_response (Js_error ''TypeError'' (destructure_message en))"
    if "req_json req = Inr JNull"
  proof -
    from that have "try_block en req = Inl ([], Js_error ''TypeError'' (destructure_message en))"
      by (simp add: try_block_def destructure_def)
    from handler_raised [OF assms this] show ?thesis by simp
  qed
  have d: "fst (handler en req) = error_response e"
    if "req_json req = Inr v \<and> destructure en v = Inr i \<and> emailContent en i = Inl e" for v i e
  proof -
    from that have "try_block en req = Inl ([], e)" by (simp add: try_block_def)
    from handler_raised [OF assms this] show ?thesis by simp
  qed
  have e: "(status (fst (handler en req)) = 500) = isl (try_block en req) \<and>
         (status (fst (handler en req)) = 200) = (\<not> isl (try_block en req))"
  proof (cases "try_block en req")
    case (Inl p)
    obtain ls e where "p = (ls, e)" by (cases p)
    with Inl a [of ls e] show ?thesis by (simp add: error_response_def)
  next
    case (Inr p)
    obtain r ls where p: "p = (r, ls)" by (cases p)
    with Inr try_block_status [of en req r ls] assms show ?thesis by (simp add: handler_def)
  qed
  from a b c d e show ?thesis by blast
qed

theorem invitation_errors_caught_witness:
  "handler v8 bad_json_request =
     (\<lparr>status = 500, headers = corsHeaders @ [(''Content-Type'', ''application/json'')],
       body = Some (JObj [(''success'', JBool False),
         (''error'', JStr ''Unexpected end of JSON input'')])\<rparr>,
      [Log_error ''Error sending invitation:'' (Js_error ''SyntaxError'' ''Unexpected end of JSON input'')]) \<and>
   fst (handler v8 null_request) =
     \<lparr>status = 500, headers = corsHeaders @ [(''Content-Type'', ''application/json'')],
       body = Some (JObj [(''success'', JBool False),
         (''error'', JStr (destructure_message v8))])\<rparr> \<and>
   fst (handler v8 unprintable_request) =
     \<lparr>status = 500, headers = corsHeaders @ [(''Content-Type'', ''application/json'')],
       body = Some (JObj [(''success'', JBool False),
         (''error'', JStr ''Cannot convert object to primitive value'')])\<rparr>"
proof -
  have m: "req_method bad_json_request \<noteq> ''OPTIONS''" "req_method null_request \<noteq> ''OPTIONS''"
    "req_method unprintable_request \<noteq> ''OPTIONS''"
    by (simp_all add: bad_json_request_def null_request_def unprintable_request_def)
  have t1: "try_block v8 bad_json_request
      = Inl ([], Js_error ''SyntaxError'' ''Unexpected end of JSON input'')"
    by (simp add: try_block_def bad_json_request_def)
  have t2: "req_json null_request = Inr JNull" by (simp add: null_request_def)
  have t3: "try_block v8 unprintable_request
      = Inl ([], Js_error ''TypeError'' ''Cannot convert object to primitive value'')"
    by (simp add: try_block_def unprintable_request_def destructure_def emailContent_def v8_def)
  have n: "destructure_message v8 \<noteq> []" by (simp add: v8_def)
  from invitation_errors_caught [OF m(1), of v8] t1
  have h1: "handler v8 bad_json_request = (error_response (Js_error ''SyntaxError'' ''Unexpected end of JSON input''),
      [] @ [Log_error ''Error sending invitation:'' (Js_error ''SyntaxError'' ''Unexpected end of JSON input'')])"
    by blast
  from invitation_errors_caught [OF m(2), of v8] t2
  have h2: "fst (handler v8 null_request) = error_response (Js_error ''TypeError'' (destructure_message v8))"
    by blast
  from invitation_errors_caught [OF m(3), of v8] t3
  have h3: "handler v8 unprintable_request = (error_response (Js_error ''TypeError'' ''Cannot convert object to primitive value''),
      [] @ [Log_error ''Error sending invitation:'' (Js_error ''TypeError'' ''Cannot convert object to primitive value'')])"
    by blast
  show ?thesis unfolding h1 h2 h3 using n by (simp add: error_response_def)
qed

section \<open>Loading the state mirror\<close>

lemma parse_item_ok: "\<not> is_unparsable s \<Longrightarrow> \<exists>v. parse_item s = Inr v \<and> (s = Absent \<longrightarrow> v = JNull)"
  by (cases s) simp_all

lemma parse_item_bad: "is_unparsable s \<Longrightarrow> \<exists>e. parse_item s = Inl e \<and> s = Unparsable e"
  by (cases s) simp_all

lemma or_default_null [simp]: "or_default JNull dflt = dflt"
  by (simp add: or_default_def)

lemma loadData_all_parse:
  assumes "\<not> is_unparsable (ls ''events'')" "\<not> is_unparsable (ls ''teams'')"
    "\<not> is_unparsable (ls ''judges'')" "\<not> is_unparsable (ls ''categories'')"
    "\<not> is_unparsable (ls ''evaluations'')"
  shows "\<exists>st'. loadData ls st = (st', None) \<and>
     (ls ''events'' = Absent \<longrightarrow> st_events st' = seed_events) \<and>
     (ls ''teams'' = Absent \<longrightarrow> st_teams st' = seed_teams) \<and>
     (ls ''judges'' = Absent \<longrightarrow> st_judges st' = seed_judges) \<and>
     (ls ''categories'' = Absent \<longrightarrow> st_categories st' = seed_categories) \<and>
     (ls ''evaluations'' = Absent \<longrightarrow> st_evaluations st' = seed_evaluations)"
proof -
  from parse_item_ok [OF assms(1)] obtain v1 where v1: "parse_item (ls ''events'') = Inr v1"
    "ls ''events'' = Absent \<longrightarrow> v1 = JNull" by blast
  from parse_item_ok [OF assms(2)] obtain v2 where v2: "parse_item (ls ''teams'') = Inr v2"
    "ls ''teams'' = Absent \<longrightarrow> v2 = JNull" by blast
  from parse_item_ok [OF assms(3)] obtain v3 where v3: "parse_item (ls ''judges'') = Inr v3"
    "ls ''judges'' = Absent \<longrightarrow> v3 = JNull" by blast
  from parse_item_ok [OF assms(4)] obtain v4 where v4: "parse_item (ls ''categories'') = Inr v4"
    "ls ''categories'' = Absent \<longrightarrow> v4 = JNull" by blast
  from parse_item_ok [OF assms(5)] obtain v5 where v5: "parse_item (ls ''evaluations'') = Inr v5"
    "ls ''evaluations'' = Absent \<longrightarrow> v5 = JNull" by blast
  have "loadData ls st = (st\<lparr>st_events := or_default v1 seed_events,
      st_teams := or_default v2 seed_teams, st_judges := or_default v3 seed_judges,
      st_categories := or_default v4 seed_categories,
      st_evaluations := or_default v5 seed_evaluations\<rparr>, None)"
    by (simp add: loadData_def v1(1) v2(1) v3(1) v4(1) v5(1))
  with v1(2) v2(2) v3(2) v4(2) v5(2) show ?thesis by auto
qed

lemma loadData_throws:
  assumes "k \<in> set storage_keys" "is_unparsable (ls k)"
  shows "snd (loadData ls st) \<noteq> None"
proof -
  have "snd (loadData ls st) \<noteq> None"
    if "is_unparsable (ls ''events'') \<or> is_unparsable (ls ''teams'') \<or>
      is_unparsable (ls ''judges'') \<or> is_unparsable (ls ''categories'') \<or>
      is_unparsable (ls ''evaluations'')"
    using that
    by (cases "ls ''events''"; cases "ls ''teams''"; cases "ls ''judges''";
        cases "ls ''categories''"; cases "ls ''evaluations''")
      (simp_all add: loadData_def)
  with assms show ?thesis by (auto simp: storage_keys_def)
qed

lemma loadData_teams_not_set:
  assumes "ls ''teams'' = Unparsable e"
  shows "st_teams (fst (loadData ls st)) = st_teams st \<and>
     st_judges (fst (loadData ls st)) = st_judges st \<and>
     st_categories (fst (loadData ls st)) = st_categories st \<and>
     st_evaluations (fst (loadData ls st)) = st_evaluations st"
  using assms by (cases "ls ''events''") (simp_all add: loadData_def)

lemma loadData_judges_not_set:
  assumes "ls ''judges'' = Unparsable e"
  shows "st_judges (fst (loadData ls st)) = st_judges st \<and>
     st_categories (fst (loadData ls st)) = st_categories st \<and>
     st_evaluations (fst (loadData ls st)) = st_evaluations st"
  using assms
  by (cases "ls ''events''"; cases "ls ''teams''") (simp_all add: loadData_def)

lemma loadData_categories_not_set:
  assumes "ls ''categories'' = Unparsable e"
  shows "st_categories (fst (loadData ls st)) = st_categories st \<and>
     st_evaluations (fst (loadData ls st)) = st_evaluations st"
  using assms
  by (cases "ls ''events''"; cases "ls ''teams''"; cases "ls ''judges''")
    (simp_all add: loadData_def)

lemma loadData_evaluations_not_set:
  assumes "ls ''evaluations'' = Unparsable e"
  shows "st_evaluations (fst (loadData ls st)) = st_evaluations st"
  using assms
  by (cases "ls ''events''"; cases "ls ''teams''"; cases "ls ''judges''"; cases "ls ''categories''")
    (simp_all add: loadData_def)

text \<open>
  C9, as amended. When the contents of no key fail to parse, \<^verbatim>\<open>loadData\<close> ends without
  an exception and the state of every absent key is the hardcoded seed. When the contents
  of some key fail to parse, \<^verbatim>\<open>loadData\<close> ends with an exception of \<^verbatim>\<open>JSON.parse\<close>: there is
  no fallback, and the state of that key and of every key after it is left as it was, so
  that with the key \<^verbatim>\<open>events\<close> unparsable no state is set at all. The exception is that of
  the first key whose contents fail to parse, and the states of the keys before it are
  set from what they hold.
\<close>

theorem loadData_seeds:
  "(list_all (\<lambda>k. \<not> is_unparsable (ls k)) storage_keys \<longrightarrow>
      (\<exists>st'. loadData ls st = (st', None) \<and>
        (ls ''events'' = Absent \<longrightarrow> st_events st' = seed_events) \<and>
        (ls ''teams'' = Absent \<longrightarrow> st_teams st' = seed_teams) \<and>
        (ls ''judges'' = Absent \<longrightarrow> st_judges st' = seed_judges) \<and>
        (ls ''categories'' = Absent \<longrightarrow> st_categories st' = seed_categories) \<and>
        (ls ''evaluations'' = Absent \<longrightarrow> st_evaluations st' = seed_evaluations))) \<and>
   (list_ex (\<lambda>k. is_unparsable (ls k)) storage_keys \<longrightarrow> snd (loadData ls st) \<noteq> None) \<and>
   (ls ''events'' = Unparsable e \<longrightarrow> loadData ls st = (st, Some e)) \<and>
   (ls ''teams'' = Unparsable e \<longrightarrow>
      st_teams (fst (loadData ls st)) = st_teams st \<and>
      st_judges (fst (loadData ls st)) = st_judges st \<and>
      st_categories (fst (loadData ls st)) = st_categories st \<and>
      st_evaluations (fst (loadData ls st)) = st_evaluations st) \<and>
   (ls ''judges'' = Unparsable e \<longrightarrow>
      st_judges (fst (loadData ls st)) = st_judges st \<and>
      st_categories (fst (loadData ls st)) = st_categories st \<and>
      st_evaluations (fst (loadData ls st)) = st_evaluations st) \<and>
   (ls ''categories'' = Unparsable e \<longrightarrow>
      st_categories (fst (loadData ls st)) = st_categories st \<and>
      st_evaluations (fst (loadData ls st)) = st_evaluations st) \<and>
   (ls ''evaluations'' = Unparsable e \<longrightarrow>
      st_evaluations (fst (loadData ls st)) = st_evaluations st) \<and>
   (parse_item (ls ''events'') = Inr v1 \<and> ls ''teams'' = Unparsable e \<longrightarrow>
      loadData ls st = (st\<lparr>st_events := or_default v1 seed_events\<rparr>, Some e)) \<and>
   (parse_item (ls ''events'') = Inr v1 \<and> parse_item (ls ''teams'') = Inr v2 \<and>
    ls ''judges'' = Unparsable e \<longrightarrow>
      loadData ls st = (st\<lparr>st_events := or_default v1 seed_events,
        st_teams := or_default v2 seed_teams\<rparr>, Some e)) \<and>
   (parse_item (ls ''events'') = Inr v1 \<and> parse_item (ls ''teams'') = Inr v2 \<and>
    parse_item (ls ''judges'') = Inr v3 \<and> ls ''categories'' = Unparsable e \<longrightarrow>
      loadData ls st = (st\<lparr>st_events := or_default v1 seed_events,
        st_teams := or_default v2 seed_teams, st_judges := or_default v3 seed_judges\<rparr>, Some e)) \<and>
   (parse_item (ls ''events'') = Inr v1 \<and> parse_item (ls ''teams'') = Inr v2 \<and>
    parse_item (ls ''judges'') = Inr v3 \<and> parse_item (ls ''categories'') = Inr v4 \<and>
    ls ''evaluations'' = Unparsable e \<longrightarrow>
      loadData ls st = (st\<lparr>st_events := or_default v1 seed_events,
        st_teams := or_default v2 seed_teams, st_judges := or_default v3 seed_judges,
        st_categories := or_default v4 seed_categories\<rparr>, Some e)) \<and>
   (parse_item (ls ''events'') = Inr v1 \<and> parse_item (ls ''teams'') = Inr v2 \<and>
    parse_item (ls ''judges'') = Inr v3 \<and> parse_item (ls ''categories'') = Inr v4 \<and>
    parse_item (ls ''evaluations'') = Inr v5 \<longrightarrow>
      loadData ls st = (st\<lparr>st_events := or_default v1 seed_events,
        st_teams := or_default v2 seed_teams, st_judges := or_default v3 seed_judges,
        st_categories := or_default v4 seed_categories,
        st_evaluations := or_default v5 seed_evaluations\<rparr>, None))"
proof -
  have a: "(list_all (\<lambda>k. \<not> is_unparsable (ls k)) storage_keys \<longrightarrow>
          (\<exists>st'. loadData ls st = (st', None) \<and>
            (ls ''events'' = Absent \<longrightarrow> st_events st' = seed_events) \<and>
            (ls ''teams'' = Absent \<longrightarrow> st_teams st' = seed_teams) \<and>
            (ls ''judges'' = Absent \<longrightarrow> st_judges st' = seed_judges) \<and>
            (ls ''categories'' = Absent \<longrightarrow> st_categories st' = seed_categories) \<and>
            (ls ''evaluations'' = Absent \<longrightarrow> st_evaluations st' = seed_evaluations)))"
    using loadData_all_parse [of ls st] by (simp add: storage_keys_def)
  have b: "(list_ex (\<lambda>k. is_unparsable (ls k)) storage_keys \<longrightarrow> snd (loadData ls st) \<noteq> None)"
    using loadData_throws [of _ ls st] by (auto simp: list_ex_iff)
  have c: "(ls ''events'' = Unparsable e \<longrightarrow> loadData ls st = (st, Some e))"
    by (simp add: loadData_def)
  have d1: "(ls ''teams'' = Unparsable e \<longrightarrow>
          st_teams (fst (loadData ls st)) = st_teams st \<and>
          st_judges (fst (loadData ls st)) = st_judges st \<and>
          st_categories (fst (loadData ls st)) = st_categories st \<and>
          st_evaluations (fst (loadData ls st)) = st_evaluations st)"
    using loadData_teams_not_set [of ls e st] by (rule impI)
  have d2: "(ls ''judges'' = Unparsable e \<longrightarrow>
          st_judges (fst (loadData ls st)) = st_judges st \<and>
          st_categories (fst (loadData ls st)) = st_categories st \<and>
          st_evaluations (fst (loadData ls st)) = st_evaluations st)"
    using loadData_judges_not_set [of ls e st] by (rule impI)
  have d3: "(ls ''categories'' = Unparsable e \<longrightarrow>
          st_categories (fst (loadData ls st)) = st_categories st \<and>
          st_evaluations (fst (loadData ls st)) = st_evaluations st)"
    using loadData_categories_not_set [of ls e st] by (rule impI)
  have d4: "(ls ''evaluations'' = Unparsable e \<longrightarrow>
          st_evaluations (fst (loadData ls st)) = st_evaluations st)"
    using loadData_evaluations_not_set [of ls e st] by (rule impI)
  have f1: "(parse_item (ls ''events'') = Inr v1 \<and> ls ''teams'' = Unparsable e \<longrightarrow>
          loadData ls st = (st\<lparr>st_events := or_default v1 seed_events\<rparr>, Some e))"
    by (rule impI, elim conjE) (simp add: loadData_def)
  have f2: "(parse_item (ls ''events'') = Inr v1 \<and> parse_item (ls ''teams'') = Inr v2 \<and>
        ls ''judges'' = Unparsable e \<longrightarrow>
          loadData ls st = (st\<lparr>st_events := or_default v1 seed_events,
            st_teams := or_default v2 seed_teams\<rparr>, Some e))"
    by (rule impI, elim conjE) (simp add: loadData_def)
  have f3: "(parse_item (ls ''events'') = Inr v1 \<and> parse_item (ls ''teams'') = Inr v2 \<and>
        parse_item (ls ''judges'') = Inr v3 \<and> ls ''categories'' = Unparsable e \<longrightarrow>
          loadData ls st = (st\<lparr>st_events := or_default v1 seed_events,
            st_teams := or_default v2 seed_teams, st_judges := or_default v3 seed_judges\<rparr>, Some e))"
    by (rule impI, elim conjE) (simp add: loadData_def)
  have f4: "(parse_item (ls ''events'') = Inr v1 \<and> parse_item (ls ''teams'') = Inr v2 \<and>
        parse_item (ls ''judges'') = Inr v3 \<and> parse_item (ls ''categories'') = Inr v4 \<and>
        ls ''evaluations'' = Unparsable e \<longrightarrow>
          loadData ls st = (st\<lparr>st_events := or_default v1 seed_events,
            st_teams := or_default v2 seed_teams, st_judges := or_default v3 seed_judges,
            st_categories := or_default v4 seed_categories\<rparr>, Some e))"
    by (rule impI, elim conjE) (simp add: loadData_def)
  have f5: "(parse_item (ls ''events'') = Inr v1 \<and> parse_item (ls ''teams'') = Inr v2 \<and>
        parse_item (ls ''judges'') = Inr v3 \<and> parse_item (ls ''categories'') = Inr v4 \<and>
        parse_item (ls ''evaluations'') = Inr v5 \<longrightarrow>
          loadData ls st = (st\<lparr>st_events := or_default v1 seed_events,
            st_teams := or_default v2 seed_teams, st_judges := or_default v3 seed_judges,
            st_categories := or_default v4 seed_categories,
            st_evaluations := or_default v5 seed_evaluations\<rparr>, None))"
    by (rule impI, elim conjE) (simp add: loadData_def)
  show ?thesis
    by (intro conjI) (rule a b c d1 d2 d3 d4 f1 f2 f3 f4 f5)+
qed

theorem loadData_seeds_witness:
  "loadData empty_storage initial_state =
     (\<lparr>st_events = seed_events, st_teams = seed_teams, st_judges = seed_judges,
       st_categories = seed_categories, st_evaluations = seed_evaluations\<rparr>, None) \<and>
   loadData broken_storage initial_state =
     (initial_state, Some (Js_error ''SyntaxError'' ''Unexpected end of JSON input'')) \<and>
   loadData broken_teams_storage initial_state =
     (initial_state\<lparr>st_events := seed_events\<rparr>,
      Some (Js_error ''SyntaxError'' ''Unexpected end of JSON input'')) \<and>
   st_teams (fst (loadData broken_teams_storage initial_state)) = JArr []"
proof -
  let ?e = "Js_error ''SyntaxError'' ''Unexpected end of JSON input''"
  have 1: "list_all (\<lambda>k. \<not> is_unparsable (empty_storage k)) storage_keys"
    by (simp add: empty_storage_def storage_keys_def)
  have 2: "broken_storage ''events'' = Unparsable ?e"
    by (simp add: broken_storage_def)
  have 3: "parse_item (broken_teams_storage ''events'') = Inr JNull \<and>
      broken_teams_storage ''teams'' = Unparsable ?e"
    by (simp add: broken_teams_storage_def empty_storage_def)
  note t1 = loadData_seeds [of empty_storage initial_state, THEN conjunct1, THEN mp, OF 1]
  note t2 = loadData_seeds [of broken_storage initial_state ?e, THEN conjunct2, THEN conjunct2,
      THEN conjunct1, THEN mp, OF 2]
  note t3 = loadData_seeds [of broken_teams_storage initial_state ?e JNull, THEN conjunct2,
      THEN conjunct2, THEN conjunct2, THEN conjunct2, THEN conjunct2, THEN conjunct2,
      THEN conjunct2, THEN conjunct1, THEN mp, OF 3]
  note t4 = loadData_seeds [of broken_teams_storage initial_state ?e, THEN conjunct2,
      THEN conjunct2, THEN conjunct2, THEN conjunct1, THEN mp, OF 3 [THEN conjunct2],
      THEN conjunct1]
  from t1 obtain st' where "loadData empty_storage initial_state = (st', None)"
    by (elim exE conjE)
  moreover have "loadData empty_storage initial_state =
     (\<lparr>st_events = seed_events, st_teams = seed_teams, st_judges = seed_judges,
       st_categories = seed_categories, st_evaluations = seed_evaluations\<rparr>, None)"
    by (simp add: loadData_def empty_storage_def initial_state_def)
  ultimately show ?thesis using t2 t3 t4 by (simp add: initial_state_def)
qed

text \<open>
  The claim as stated fails: with a text that is not JSON under the key \<^verbatim>\<open>events\<close>,
  \<^verbatim>\<open>loadData\<close> raises the \<^verbatim>\<open>SyntaxError\<close> and leaves the events, and the teams after them,
  as they were, not at their seeds.
\<close>

theorem loadData_no_fallback_counterexample:
  "broken_storage ''events'' = Unparsable (Js_error ''SyntaxError'' ''Unexpected end of JSON input'') \<and>
   loadData broken_storage initial_state =
     (initial_state, Some (Js_error ''SyntaxError'' ''Unexpected end of JSON input'')) \<and>
   st_events (fst (loadData broken_storage initial_state)) \<noteq> seed_events \<and>
   st_teams (fst (loadData broken_storage initial_state)) \<noteq> seed_teams"
  by (simp add: loadData_def broken_storage_def initial_state_def seed_events_def seed_teams_def)

end
